theory Spec2Isabelle
  imports Main
begin

section \<open>The OpenStack manager of the runner operator\<close>

text \<open>
  A shallow embedding of \<^verbatim>\<open>src/openstack_cloud/openstack_manager.py\<close>. The functions of
  the module talk to the source-hosting client, to the build script, to the template
  engine and to the cloud; here they run on an explicit \<open>world\<close>, which holds the cloud's
  image catalog, the journal of everything the module asked of its collaborators, and
  the answers the collaborators are going to give (this is where failures are injected).
\<close>

subsection \<open>Exceptions\<close>

text \<open>
  An exception raised by a collaborator (the source-hosting client, the build script, the
  template engine, the cloud) is its class and its message. An exception of a subclass
  is represented by the class the module's \<^verbatim>\<open>except\<close> clauses name (a
  \<^verbatim>\<open>CalledProcessError\<close> is a \<open>SubprocessError\<close>); \<open>OtherException\<close> stands for every
  class the module never names.
\<close>

datatype lib_class =
    RunnerBinaryError
  | SubprocessError
  | OpenStackCloudException
  | Unauthorized
  | TemplateError
  | OtherException

datatype lib_exn = LibExn (lib_class: lib_class) (lib_message: string)

text \<open>
  What a function of the module raises: a collaborator's exception passing through
  (\<open>Lib\<close>), one of the three errors the module raises itself, with the message and the
  exception it was raised \<^verbatim>\<open>from\<close>, or an error of the Python runtime.
\<close>

datatype exn =
    Lib lib_exn
  | OpenStackUnauthorizedError string lib_exn
  | ImageBuildError string "lib_exn option"
  | InstanceLaunchError string lib_exn
  | KeyError string
  | IndexError string
  | ValueError string
  | RuntimeError string

subsection \<open>The data of the module\<close>

text \<open>
  \<open>ProxyConfig\<close>, \<open>RunnerApplication\<close>, \<open>SSHDebugConnection\<close> and \<open>GithubPath\<close> are declared
  in modules outside this file; the records hold the fields the manager reads. An
  optional field that is absent is \<open>None\<close>.
\<close>

record ProxyConfig =
  http :: "string option"
  https :: "string option"
  no_proxy :: "string option"

record RunnerApplication =
  download_url :: string
  architecture :: string

record SSHDebugConnection =
  host :: string
  port :: nat

datatype GithubPath = GithubPath (path: string)

record image =
  image_id :: string
  image_name :: string
  image_file :: string

record InstanceConfig =
  name :: string
  labels :: "string list"
  registration_token :: string
  github_path :: GithubPath
  openstack_image :: image

record server =
  server_name :: string
  server_image :: image
  flavor :: string
  userdata :: string

datatype connection = Connection string

text \<open>The keyword arguments handed to each of the three templates.\<close>

datatype template_vars =
    DockerProxyVars "ProxyConfig option"
  | EnvVars "ProxyConfig option" string "string option" "SSHDebugConnection option"
  | UserdataVars string string string string string

text \<open>The source-hosting client: what it answers for a path (and an architecture).\<close>

record GithubClient =
  applications :: "GithubPath \<Rightarrow> string \<Rightarrow> lib_exn + RunnerApplication"
  tokens :: "GithubPath \<Rightarrow> lib_exn + string"

subsection \<open>The world\<close>

datatype call =
    GetRunnerApplication GithubPath string
  | GetRunnerRegistrationToken GithubPath
  | ExecuteCommand "string list"
  | Connect string
  | ListProjects
  | SearchImages string
  | DeleteImage string
  | CreateImage string string
  | CreateServer string image string string
  | LoadTemplate string
  | Render string template_vars

datatype answer = Returned | ReturnedFalse | Raised lib_exn

datatype event =
    Call call answer
  | LogWarning string
  | LogFailure exn
  | Sleep int

text \<open>
  \<open>events\<close> is the journal, oldest entry first. \<open>failure w n\<close> is the exception, if any,
  that the collaborator raises when the call is made with \<open>n\<close> entries in the journal, and
  \<open>refusal w n\<close> says that the cloud reports a deletion made then as not done: every
  sequence of injected failures is some choice of these two functions. \<open>entropy\<close> is the
  stream of random bytes the operating system hands out (each entry is read modulo 256)
  and \<open>drawn\<close> how many of them have been used.
\<close>

record world =
  events :: "event list"
  catalog :: "image list"
  servers :: "server list"
  projects :: "string list"
  failure :: "nat \<Rightarrow> lib_exn option"
  refusal :: "nat \<Rightarrow> bool"
  fresh_id :: "nat \<Rightarrow> string"
  templates :: "string \<Rightarrow> lib_exn + (template_vars \<Rightarrow> lib_exn + string)"
  entropy :: "nat \<Rightarrow> nat"
  drawn :: nat

text \<open>
  A computation that always returns runs from a world to a result, raised or returned,
  and a world (\<open>io\<close>). One that may run forever has no result then (\<open>proc\<close>).
\<close>

type_synonym 'a io = "world \<Rightarrow> (exn + 'a) \<times> world"

type_synonym 'a proc = "world \<Rightarrow> ((exn + 'a) \<times> world) option"

definition ret :: "'a \<Rightarrow> 'a io" where
  "ret x w = (Inr x, w)"

definition throw :: "exn \<Rightarrow> 'a io" where
  "throw e w = (Inl e, w)"

definition andthen :: "'a io \<Rightarrow> ('a \<Rightarrow> 'b io) \<Rightarrow> 'b io" where
  "andthen m f w = (case m w of (Inl e, w') \<Rightarrow> (Inl e, w') | (Inr x, w') \<Rightarrow> f x w')"

text \<open>
  \<^verbatim>\<open>try: m except C as exc: raise D(msg) from exc\<close>: a collaborator's exception of class
  \<open>C\<close> is replaced by \<open>D exc\<close>, every other exception passes through.
\<close>

definition reraised :: "lib_class \<Rightarrow> (lib_exn \<Rightarrow> exn) \<Rightarrow> exn + 'a \<Rightarrow> exn + 'a" where
  "reraised C D r =
     (case r of
        Inl (Lib exc) \<Rightarrow> if lib_class exc = C then Inl (D exc) else Inl (Lib exc)
      | _ \<Rightarrow> r)"

definition reraise_from :: "lib_class \<Rightarrow> (lib_exn \<Rightarrow> exn) \<Rightarrow> 'a io \<Rightarrow> 'a io" where
  "reraise_from C D m w = (case m w of (r, w') \<Rightarrow> (reraised C D r, w'))"

definition always :: "'a io \<Rightarrow> 'a proc" where
  "always m w = Some (m w)"

definition andthen_p :: "'a proc \<Rightarrow> ('a \<Rightarrow> 'b proc) \<Rightarrow> 'b proc" where
  "andthen_p m f w =
     (case m w of
        None \<Rightarrow> None
      | Some (Inl e, w') \<Rightarrow> Some (Inl e, w')
      | Some (Inr x, w') \<Rightarrow> f x w')"

definition journal :: "event \<Rightarrow> world \<Rightarrow> world" where
  "journal e w = w\<lparr>events := events w @ [e]\<rparr>"

definition injected :: "world \<Rightarrow> lib_exn option" where
  "injected w = failure w (length (events w))"

subsection \<open>The collaborators\<close>

definition get_runner_application :: "GithubClient \<Rightarrow> GithubPath \<Rightarrow> string \<Rightarrow> RunnerApplication io" where
  "get_runner_application github_client p arch w =
     (case applications github_client p arch of
        Inl exc \<Rightarrow> (Inl (Lib exc), journal (Call (GetRunnerApplication p arch) (Raised exc)) w)
      | Inr app \<Rightarrow> (Inr app, journal (Call (GetRunnerApplication p arch) Returned) w))"

definition get_runner_registration_token :: "GithubClient \<Rightarrow> GithubPath \<Rightarrow> string io" where
  "get_runner_registration_token github_client p w =
     (case tokens github_client p of
        Inl exc \<Rightarrow> (Inl (Lib exc), journal (Call (GetRunnerRegistrationToken p) (Raised exc)) w)
      | Inr t \<Rightarrow> (Inr t, journal (Call (GetRunnerRegistrationToken p) Returned) w))"

definition execute_command :: "string list \<Rightarrow> bool \<Rightarrow> unit io" where
  "execute_command cmd check_exit w =
     (case injected w of
        Some exc \<Rightarrow> (Inl (Lib exc), journal (Call (ExecuteCommand cmd) (Raised exc)) w)
      | None \<Rightarrow> (Inr (), journal (Call (ExecuteCommand cmd) Returned) w))"

text \<open>
  The template engine reads the directory \<^verbatim>\<open>templates\<close>: looking a template up can
  fail (a missing or malformed template), and so can rendering it. A template is its name
  and what it renders to; each look-up is journalled, and each rendering with the
  variables it was given.
\<close>

type_synonym template = "string \<times> (template_vars \<Rightarrow> lib_exn + string)"

definition get_template :: "string \<Rightarrow> template io" where
  "get_template template_name w =
     (case templates w template_name of
        Inl exc \<Rightarrow> (Inl (Lib exc), journal (Call (LoadTemplate template_name) (Raised exc)) w)
      | Inr f \<Rightarrow> (Inr (template_name, f), journal (Call (LoadTemplate template_name) Returned) w))"

definition render :: "template \<Rightarrow> template_vars \<Rightarrow> string io" where
  "render template vars w =
     (case snd template vars of
        Inl exc \<Rightarrow> (Inl (Lib exc), journal (Call (Render (fst template) vars) (Raised exc)) w)
      | Inr document \<Rightarrow> (Inr document, journal (Call (Render (fst template) vars) Returned) w))"

definition openstack_connect :: "string \<Rightarrow> connection io" where
  "openstack_connect cloud_name w =
     (case injected w of
        Some exc \<Rightarrow> (Inl (Lib exc), journal (Call (Connect cloud_name) (Raised exc)) w)
      | None \<Rightarrow> (Inr (Connection cloud_name), journal (Call (Connect cloud_name) Returned) w))"

definition conn_list_projects :: "connection \<Rightarrow> string list io" where
  "conn_list_projects conn w =
     (case injected w of
        Some exc \<Rightarrow> (Inl (Lib exc), journal (Call ListProjects (Raised exc)) w)
      | None \<Rightarrow> (Inr (projects w), journal (Call ListProjects Returned) w))"

definition search_images :: "connection \<Rightarrow> string \<Rightarrow> image list io" where
  "search_images conn name_or_id w =
     (case injected w of
        Some exc \<Rightarrow> (Inl (Lib exc), journal (Call (SearchImages name_or_id) (Raised exc)) w)
      | None \<Rightarrow>
          (Inr (filter (\<lambda>i. image_id i = name_or_id \<or> image_name i = name_or_id) (catalog w)),
           journal (Call (SearchImages name_or_id) Returned) w))"

text \<open>
  A deletion that goes through removes the image of that id and returns \<^verbatim>\<open>True\<close>; the
  cloud returns \<^verbatim>\<open>False\<close> when it has no such image, or when it reports the deletion as
  not done.
\<close>

definition delete_image :: "connection \<Rightarrow> string \<Rightarrow> bool \<Rightarrow> bool io" where
  "delete_image conn name_or_id wait w =
     (case injected w of
        Some exc \<Rightarrow> (Inl (Lib exc), journal (Call (DeleteImage name_or_id) (Raised exc)) w)
      | None \<Rightarrow>
          if refusal w (length (events w)) \<or> name_or_id \<notin> image_id ` set (catalog w)
          then (Inr False, journal (Call (DeleteImage name_or_id) ReturnedFalse) w)
          else (Inr True,
                journal (Call (DeleteImage name_or_id) Returned)
                  (w\<lparr>catalog := filter (\<lambda>i. image_id i \<noteq> name_or_id) (catalog w)\<rparr>)))"

definition create_image :: "connection \<Rightarrow> string \<Rightarrow> string \<Rightarrow> bool \<Rightarrow> image io" where
  "create_image conn nm filename wait w =
     (case injected w of
        Some exc \<Rightarrow> (Inl (Lib exc), journal (Call (CreateImage nm filename) (Raised exc)) w)
      | None \<Rightarrow>
          (let img = \<lparr>image_id = fresh_id w (length (events w)), image_name = nm,
                      image_file = filename\<rparr>
           in (Inr img,
               journal (Call (CreateImage nm filename) Returned) (w\<lparr>catalog := catalog w @ [img]\<rparr>))))"

definition create_server :: "connection \<Rightarrow> string \<Rightarrow> image \<Rightarrow> string \<Rightarrow> string \<Rightarrow> bool \<Rightarrow> server io" where
  "create_server conn nm img flv udata wait w =
     (case injected w of
        Some exc \<Rightarrow> (Inl (Lib exc), journal (Call (CreateServer nm img flv udata) (Raised exc)) w)
      | None \<Rightarrow>
          (let srv = \<lparr>server_name = nm, server_image = img, flavor = flv, userdata = udata\<rparr>
           in (Inr srv,
               journal (Call (CreateServer nm img flv udata) Returned) (w\<lparr>servers := servers w @ [srv]\<rparr>))))"

subsection \<open>The standard library\<close>

text \<open>
  \<^verbatim>\<open>json.dumps\<close> with its defaults, on the documents the module builds (objects and
  strings): \<^verbatim>\<open>", "\<close> between the items, \<^verbatim>\<open>": "\<close> after a key, and every character
  outside the printable ASCII range, the quote and the backslash escaped.
\<close>

datatype json = JString string | JObject "(string \<times> json) list"

definition hexdigit :: "nat \<Rightarrow> char" where
  "hexdigit n = ''0123456789abcdef'' ! (n mod 16)"

definition json_escape :: "char \<Rightarrow> string" where
  "json_escape c =
     (if c = CHR 0x5C then [CHR 0x5C, CHR 0x5C]
      else if c = CHR 0x22 then [CHR 0x5C, CHR 0x22]
      else if c = CHR 0x08 then [CHR 0x5C, CHR ''b'']
      else if c = CHR 0x0C then [CHR 0x5C, CHR ''f'']
      else if c = CHR 0x0A then [CHR 0x5C, CHR ''n'']
      else if c = CHR 0x0D then [CHR 0x5C, CHR ''r'']
      else if c = CHR 0x09 then [CHR 0x5C, CHR ''t'']
      else if 32 \<le> (of_char c :: nat) \<and> (of_char c :: nat) \<le> 126 then [c]
      else [CHR 0x5C, CHR ''u'', CHR ''0'', CHR ''0'',
            hexdigit ((of_char c :: nat) div 16), hexdigit (of_char c :: nat)])"

definition json_quote :: "string \<Rightarrow> string" where
  "json_quote s = [CHR 0x22] @ concat (map json_escape s) @ [CHR 0x22]"

fun join :: "string \<Rightarrow> string list \<Rightarrow> string" where
  "join sep [] = []"
| "join sep [x] = x"
| "join sep (x # y # ys) = x @ sep @ join sep (y # ys)"

fun json_dumps :: "json \<Rightarrow> string" where
  "json_dumps (JString s) = json_quote s"
| "json_dumps (JObject kvs) =
     ''{'' @ join '', '' (map (\<lambda>kv. json_quote (fst kv) @ '': '' @ json_dumps (snd kv)) kvs) @ ''}''"

subsection \<open>The build command\<close>

definition IMAGE_PATH_TMPL :: "string \<Rightarrow> string" where
  "IMAGE_PATH_TMPL arch = ''jammy-server-cloudimg-'' @ arch @ ''-compressed.img''"

definition IMAGE_NAME :: string where
  "IMAGE_NAME = ''jammy''"

definition BUILD_OPENSTACK_IMAGE_SCRIPT_FILENAME :: string where
  "BUILD_OPENSTACK_IMAGE_SCRIPT_FILENAME = ''scripts/build-openstack-image.sh''"

text \<open>Python's truth value of an optional string: absent and empty are false.\<close>

definition truthy :: "string option \<Rightarrow> bool" where
  "truthy v = (case v of None \<Rightarrow> False | Some s \<Rightarrow> s \<noteq> [])"

text \<open>\<^verbatim>\<open>proxies.field if (proxies and proxies.field) else ""\<close>\<close>

definition field_or_empty :: "ProxyConfig option \<Rightarrow> (ProxyConfig \<Rightarrow> string option) \<Rightarrow> string" where
  "field_or_empty proxies field =
     (case proxies of
        None \<Rightarrow> []
      | Some p \<Rightarrow> if truthy (field p) then the (field p) else [])"

definition docker_proxy :: "string \<Rightarrow> string \<Rightarrow> string \<Rightarrow> json" where
  "docker_proxy http_proxy https_proxy no_proxy_value =
     JObject [(''proxies'',
       JObject [(''default'',
         JObject (map (\<lambda>kv. (fst kv, JString (snd kv)))
           (filter (\<lambda>kv. snd kv \<noteq> [])
              [(''httpProxy'', http_proxy), (''httpsProxy'', https_proxy),
               (''noProxy'', no_proxy_value)])))])]"

definition build_image_command :: "RunnerApplication \<Rightarrow> ProxyConfig option \<Rightarrow> string list io" where
  "build_image_command runner_info proxies =
     (let http_proxy = field_or_empty proxies http;
          https_proxy = field_or_empty proxies https;
          no_proxy_value = field_or_empty proxies no_proxy
      in andthen (get_template ''systemd-docker-proxy.j2'') (\<lambda>template.
         andthen (render template (DockerProxyVars proxies)) (\<lambda>docker_proxy_service_conf_content.
           let docker_client_proxy_content =
                 json_dumps (docker_proxy http_proxy https_proxy no_proxy_value)
           in ret [''/usr/bin/bash'', BUILD_OPENSTACK_IMAGE_SCRIPT_FILENAME,
                   download_url runner_info, http_proxy, https_proxy, no_proxy_value,
                   docker_proxy_service_conf_content, docker_client_proxy_content])))"

subsection \<open>The connection\<close>

text \<open>
  The configuration is a dictionary of dictionaries, in the order of its keys; under
  \<^verbatim>\<open>"clouds"\<close> it lists the cloud profiles by name. A missing key and an empty list
  raise as they do in Python.
\<close>

type_synonym cloud_config = "(string \<times> (string \<times> (string \<times> string) list) list) list"

definition log_warning :: "string \<Rightarrow> unit io" where
  "log_warning msg w = (Inr (), journal (LogWarning msg) w)"

definition create_connection :: "cloud_config \<Rightarrow> connection io" where
  "create_connection cloud_config =
     (case map_of cloud_config ''clouds'' of
        None \<Rightarrow> throw (KeyError ''clouds'')
      | Some profiles \<Rightarrow>
          (let clouds = map fst profiles
           in andthen
                (if length clouds > 1
                 then log_warning
                        ''Multiple clouds defined in clouds.yaml. Using the first one to connect.''
                 else ret ())
                (\<lambda>_. case clouds of
                        [] \<Rightarrow> throw (IndexError ''list index out of range'')
                      | cloud_name # _ \<Rightarrow> openstack_connect cloud_name)))"

text \<open>The two debug messages of \<^verbatim>\<open>list_projects\<close> are not journalled.\<close>

definition list_projects :: "cloud_config \<Rightarrow> string list io" where
  "list_projects cloud_config =
     andthen (create_connection cloud_config) (\<lambda>conn.
       reraise_from Unauthorized (OpenStackUnauthorizedError ''Unauthorized to connect to OpenStack.'')
         (conn_list_projects conn))"

subsection \<open>Building and publishing the image\<close>

text \<open>The loop of \<^verbatim>\<open>build_image\<close> over the images found under the name.\<close>

fun delete_existing_images :: "connection \<Rightarrow> image list \<Rightarrow> unit io" where
  "delete_existing_images conn [] w = (Inr (), w)"
| "delete_existing_images conn (existing_image # others) w =
     (case delete_image conn (image_id existing_image) True w of
        (Inl exc, w') \<Rightarrow> (Inl exc, w')
      | (Inr deleted, w') \<Rightarrow>
          if \<not> deleted
          then (Inl (ImageBuildError ''Failed to delete duplicate image on Openstack.'' None), w')
          else delete_existing_images conn others w')"

text \<open>The body of the third \<^verbatim>\<open>try\<close> block of \<^verbatim>\<open>build_image\<close>.\<close>

definition publish_image :: "cloud_config \<Rightarrow> RunnerApplication \<Rightarrow> image io" where
  "publish_image cloud_config runner_application =
     andthen (create_connection cloud_config) (\<lambda>conn.
       let arch = (if architecture runner_application = ''x64'' then ''amd64'' else ''arm64'')
       in andthen (search_images conn IMAGE_NAME) (\<lambda>existing_images.
          andthen (delete_existing_images conn existing_images) (\<lambda>_.
            create_image conn IMAGE_NAME (IMAGE_PATH_TMPL arch) True)))"

definition build_image ::
  "string \<Rightarrow> cloud_config \<Rightarrow> GithubClient \<Rightarrow> GithubPath \<Rightarrow> ProxyConfig option \<Rightarrow> image io" where
  "build_image arch cloud_config github_client p proxies =
     andthen
       (reraise_from RunnerBinaryError
          (\<lambda>exc. ImageBuildError ''Failed to fetch runner application.'' (Some exc))
          (get_runner_application github_client p arch))
       (\<lambda>runner_application.
          andthen
            (reraise_from SubprocessError
               (\<lambda>exc. ImageBuildError ''Failed to build image.'' (Some exc))
               (andthen (build_image_command runner_application proxies)
                  (\<lambda>cmd. execute_command cmd True)))
            (\<lambda>_. reraise_from OpenStackCloudException
                    (\<lambda>exc. ImageBuildError ''Failed to upload image.'' (Some exc))
                    (publish_image cloud_config runner_application)))"

subsection \<open>The instance configuration\<close>

text \<open>\<^verbatim>\<open>s.rsplit(sep, 1)\<close>: cut at the last separator, if there is one.\<close>

definition rsplit1 :: "char \<Rightarrow> string \<Rightarrow> string list" where
  "rsplit1 sep s =
     (if sep \<in> set s
      then [rev (tl (dropWhile (\<lambda>c. c \<noteq> sep) (rev s))), rev (takeWhile (\<lambda>c. c \<noteq> sep) (rev s))]
      else [s])"

text \<open>\<^verbatim>\<open>secrets.token_hex(n)\<close>: \<open>n\<close> random bytes, two hexadecimal digits each.\<close>

definition secrets_token_hex :: "nat \<Rightarrow> string io" where
  "secrets_token_hex nbytes w =
     (Inr (concat (map (\<lambda>i. let b = entropy w (drawn w + i) mod 256
                            in [hexdigit (b div 16), hexdigit b]) [0..<nbytes])),
      w\<lparr>drawn := drawn w + nbytes\<rparr>)"

text \<open>
  \<^verbatim>\<open>secrets.choice(seq)\<close> is \<^verbatim>\<open>seq[_randbelow(len(seq))]\<close> of the system random
  generator, where \<^verbatim>\<open>_randbelow(n)\<close> is, as the standard library has it: \<^verbatim>\<open>k = n.bit_length()\<close>;
  \<^verbatim>\<open>getrandbits(k)\<close>, which reads \<open>(k + 7) div 8\<close> bytes as a big-endian number and keeps
  its \<open>k\<close> top bits; and the loop
  \<^verbatim>\<open>r = getrandbits(k); while r >= n: r = getrandbits(k)\<close>, which redraws until the
  number is below \<open>n\<close> and need not end.
\<close>

fun bit_length :: "nat \<Rightarrow> nat" where
  "bit_length n = (if n = 0 then 0 else Suc (bit_length (n div 2)))"

declare bit_length.simps [simp del]

fun from_bytes :: "nat list \<Rightarrow> nat" where
  "from_bytes [] = 0"
| "from_bytes (b # bs) = b * 256 ^ length bs + from_bytes bs"

definition getrandbits :: "nat \<Rightarrow> world \<Rightarrow> nat \<times> world" where
  "getrandbits k w =
     (let numbytes = (k + 7) div 8;
          x = from_bytes (map (\<lambda>i. entropy w (drawn w + i) mod 256) [0..<numbytes])
      in (x div 2 ^ (numbytes * 8 - k), w\<lparr>drawn := drawn w + numbytes\<rparr>))"

partial_function (option) randbelow_loop :: "nat \<Rightarrow> nat \<Rightarrow> world \<Rightarrow> (nat \<times> world) option" where
  "randbelow_loop n k w =
     (if fst (getrandbits k w) \<ge> n then randbelow_loop n k (snd (getrandbits k w))
      else Some (getrandbits k w))"

declare randbelow_loop.simps [code]

definition randbelow :: "nat \<Rightarrow> world \<Rightarrow> (nat \<times> world) option" where
  "randbelow n w = randbelow_loop n (bit_length n) w"

definition secrets_choice :: "'a list \<Rightarrow> 'a proc" where
  "secrets_choice seq w =
     (if seq = [] then Some (Inl (IndexError ''Cannot choose from an empty sequence''), w)
      else (case randbelow (length seq) w of
              None \<Rightarrow> None
            | Some (r, w') \<Rightarrow> Some (Inr (seq ! r), w')))"

definition create_instance_config ::
  "string \<Rightarrow> image \<Rightarrow> GithubPath \<Rightarrow> GithubClient \<Rightarrow> InstanceConfig io" where
  "create_instance_config unit_name img p github_client =
     (case rsplit1 CHR ''/'' unit_name of
        [app_name, unit_num] \<Rightarrow>
          andthen (secrets_token_hex 12) (\<lambda>suffix.
          andthen (get_runner_registration_token github_client p) (\<lambda>token.
            ret \<lparr>name = app_name @ ''-'' @ unit_num @ ''-'' @ suffix,
                 labels = [app_name, ''jammy''],
                 registration_token = token,
                 github_path = p,
                 openstack_image = img\<rparr>))
      | _ \<Rightarrow> throw (ValueError ''not enough values to unpack (expected 2, got 1)''))"

subsection \<open>Launching an instance\<close>

text \<open>The debug endpoint handed to the environment template: one of the candidates, or none.\<close>

definition ssh_debug_info :: "SSHDebugConnection list option \<Rightarrow> SSHDebugConnection option proc" where
  "ssh_debug_info ssh_debug_connections =
     (case ssh_debug_connections of
        None \<Rightarrow> always (ret None)
      | Some candidates \<Rightarrow>
          if candidates \<noteq> [] then andthen_p (secrets_choice candidates) (\<lambda>c. always (ret (Some c)))
          else always (ret None))"

text \<open>The function under the decorator: one attempt.\<close>

definition create_instance_body ::
  "cloud_config \<Rightarrow> InstanceConfig \<Rightarrow> ProxyConfig option \<Rightarrow> string option \<Rightarrow>
     SSHDebugConnection list option \<Rightarrow> server proc" where
  "create_instance_body cloud_config instance_config proxies dockerhub_mirror ssh_debug_connections =
     andthen_p (always (get_template ''env.j2'')) (\<lambda>env_template.
     andthen_p (ssh_debug_info ssh_debug_connections) (\<lambda>debug_info.
     always (
     andthen (render env_template (EnvVars proxies [] dockerhub_mirror debug_info)) (\<lambda>env_contents.
     andthen (get_template ''openstack-userdata.sh.j2'') (\<lambda>userdata_template.
     andthen (render userdata_template
                (UserdataVars (''https://github.com/'' @ path (github_path instance_config))
                   (registration_token instance_config)
                   (join '','' (labels instance_config))
                   (name instance_config)
                   env_contents)) (\<lambda>cloud_userdata.
       reraise_from OpenStackCloudException (InstanceLaunchError ''Failed to launch instance.'')
         (andthen (create_connection cloud_config) (\<lambda>conn.
            create_server conn (name instance_config) (openstack_image instance_config)
              ''m1.small'' cloud_userdata True))))))))"

subsection \<open>The retry policy\<close>

text \<open>
  Modelled from the spec: the decorator \<^verbatim>\<open>retry\<close> of the module \<^verbatim>\<open>utilities\<close>, which is
  not among the sources. The spec, section 4.5: it re-invokes the wrapped operation on
  any raised error until either the operation succeeds or \<open>tries\<close> attempts are
  exhausted, sleeping \<open>min(delay * backoff^(attempt-1), maxDelay)\<close> between attempts,
  logging each failure; on final exhaustion it re-raises the last error unmodified.
  The spec leaves \<open>tries = 0\<close> open; the model then makes no attempt and raises. An
  attempt that does not return leaves the whole call without a result.
\<close>

fun retry_loop :: "nat \<Rightarrow> nat \<Rightarrow> int \<Rightarrow> int \<Rightarrow> int \<Rightarrow> 'a proc \<Rightarrow> 'a proc" where
  "retry_loop 0 attempt delay max_delay backoff body w =
     Some (Inl (RuntimeError ''no attempt allowed''), w)"
| "retry_loop (Suc remaining) attempt delay max_delay backoff body w =
     (case body w of
        None \<Rightarrow> None
      | Some (Inr x, w') \<Rightarrow> Some (Inr x, w')
      | Some (Inl err, w') \<Rightarrow>
          if remaining = 0 then Some (Inl err, journal (LogFailure err) w')
          else retry_loop remaining (Suc attempt) delay max_delay backoff body
                 (journal (Sleep (min (delay * backoff ^ (attempt - 1)) max_delay))
                    (journal (LogFailure err) w')))"

definition retry :: "nat \<Rightarrow> int \<Rightarrow> int \<Rightarrow> int \<Rightarrow> 'a proc \<Rightarrow> 'a proc" where
  "retry tries delay max_delay backoff body = retry_loop tries 1 delay max_delay backoff body"

text \<open>\<^verbatim>\<open>@retry(tries=5, delay=5, max_delay=60, backoff=2, local_logger=logger)\<close>\<close>

definition create_instance ::
  "cloud_config \<Rightarrow> InstanceConfig \<Rightarrow> ProxyConfig option \<Rightarrow> string option \<Rightarrow>
     SSHDebugConnection list option \<Rightarrow> server proc" where
  "create_instance cloud_config instance_config proxies dockerhub_mirror ssh_debug_connections =
     retry 5 5 60 2
       (create_instance_body cloud_config instance_config proxies dockerhub_mirror
          ssh_debug_connections)"

subsection \<open>Vocabulary of the statements\<close>

text \<open>A field of the proxy configuration; absent when the configuration is.\<close>

definition proxy_field :: "ProxyConfig option \<Rightarrow> (ProxyConfig \<Rightarrow> string option) \<Rightarrow> string option" where
  "proxy_field proxies field = (case proxies of None \<Rightarrow> None | Some p \<Rightarrow> field p)"

text \<open>
  A world in which every collaborator answers and nothing has happened yet, a proxy
  configuration with one field set, one empty and one absent, and the runner application
  of the spec's end-to-end scenario: the inputs at which the theorems are instantiated.
\<close>

definition quiet_world :: world where
  "quiet_world =
     \<lparr>events = [], catalog = [], servers = [], projects = [],
      failure = (\<lambda>n. None), refusal = (\<lambda>n. False),
      fresh_id = (\<lambda>n. ''image-'' @ [hexdigit n]),
      templates = (\<lambda>t. Inr (\<lambda>vars. Inr t)),
      entropy = (\<lambda>n. 37 * n + 11), drawn = 0\<rparr>"

definition squid :: "ProxyConfig option" where
  "squid = Some \<lparr>http = Some ''http://squid:3128'', https = None, no_proxy = Some []\<rparr>"

definition runner_x64 :: RunnerApplication where
  "runner_x64 = \<lparr>download_url = ''http://x/runner.tgz'', architecture = ''x64''\<rparr>"

definition squid_command :: "string list" where
  "squid_command =
     [''/usr/bin/bash'', ''scripts/build-openstack-image.sh'', ''http://x/runner.tgz'',
      ''http://squid:3128'', [], [], ''systemd-docker-proxy.j2'',
      json_dumps (JObject [(''proxies'', JObject [(''default'',
        JObject [(''httpProxy'', JString ''http://squid:3128'')])])])]"


text \<open>The hexadecimal digits, a source-hosting client that answers, and an image.\<close>

definition hex_digits :: "char set" where
  "hex_digits = set ''0123456789abcdef''"

definition github :: GithubClient where
  "github = \<lparr>applications = (\<lambda>p arch. Inr \<lparr>download_url = ''http://x/runner.tgz'', architecture = arch\<rparr>),
             tokens = (\<lambda>p. Inr ''AAAA'')\<rparr>"

definition focal :: image where
  "focal = \<lparr>image_id = ''7d2c'', image_name = ''jammy'', image_file = ''jammy-server-cloudimg-amd64-compressed.img''\<rparr>"

text \<open>
  \<open>yields m Q\<close>: from every world, \<open>m\<close> only adds entries to the journal, and its result and
  the entries it adds satisfy \<open>Q\<close>. \<open>new_events w w'\<close> are the entries added between two
  worlds.
\<close>

definition yields :: "'a io \<Rightarrow> (exn + 'a \<Rightarrow> event list \<Rightarrow> bool) \<Rightarrow> bool" where
  "yields m Q = (\<forall>w. \<exists>new. events (snd (m w)) = events w @ new \<and> Q (fst (m w)) new)"

definition new_events :: "world \<Rightarrow> world \<Rightarrow> event list" where
  "new_events w w' = drop (length (events w)) (events w')"

text \<open>The calls with which an instance is launched: opening the connection, creating the server.\<close>

definition launches :: "call \<Rightarrow> bool" where
  "launches c = (case c of Connect cloud_name \<Rightarrow> True | CreateServer nm img flv udata \<Rightarrow> True | _ \<Rightarrow> False)"

text \<open>What opening the connection yields, by the profiles the configuration lists.\<close>

definition connecting :: "cloud_config \<Rightarrow> exn + connection \<Rightarrow> event list \<Rightarrow> bool" where
  "connecting cloud_config r new =
     (case map_of cloud_config ''clouds'' of
        None \<Rightarrow> r = Inl (KeyError ''clouds'') \<and> new = []
      | Some [] \<Rightarrow> r = Inl (IndexError ''list index out of range'') \<and> new = []
      | Some (profile # others) \<Rightarrow>
          (\<exists>a. new = (if others = [] then []
                      else [LogWarning ''Multiple clouds defined in clouds.yaml. Using the first one to connect.''])
                   @ [Call (Connect (fst profile)) a]
              \<and> ((\<exists>exc. a = Raised exc \<and> r = Inl (Lib exc))
                  \<or> (a = Returned \<and> r = Inr (Connection (fst profile))))))"

text \<open>
  A configuration that lists two cloud profiles, the configuration of one instance, an
  exception of the cloud, and the world in which the call made with \<open>n\<close> entries in the
  journal raises it.
\<close>

definition clouds_yaml :: cloud_config where
  "clouds_yaml = [(''clouds'', [(''prod'', [(''region_name'', ''eu-west'')]),
                                (''staging'', [(''region_name'', ''eu-east'')])])]"

definition runner_config :: InstanceConfig where
  "runner_config =
     \<lparr>name = ''github-runner-3-0b30557a9fc4e90e33587da2'', labels = [''github-runner'', ''jammy''],
      registration_token = ''AAAA'', github_path = GithubPath ''canonical/repo'',
      openstack_image = focal\<rparr>"

definition quota_exceeded :: lib_exn where
  "quota_exceeded = LibExn OpenStackCloudException ''Quota exceeded for instances''"

definition failing_at :: "nat \<Rightarrow> lib_exn \<Rightarrow> world" where
  "failing_at n exc = quiet_world\<lparr>failure := (\<lambda>k. if k = n then Some exc else None)\<rparr>"

text \<open>Three debug endpoints.\<close>

definition bastions :: "SSHDebugConnection list" where
  "bastions = [\<lparr>host = ''10.0.0.1'', port = 22\<rparr>, \<lparr>host = ''10.0.0.2'', port = 2222\<rparr>,
               \<lparr>host = ''10.0.0.3'', port = 22\<rparr>]"

text \<open>
  Entries of the journal: a call that creates an image, a deletion the cloud reported as
  not done, a call that creates or deletes an image. \<open>deletions imgs\<close> are the entries of
  deleting each of the images, by id, with success; \<open>matching nm c\<close> are the images of the
  catalog that a search for \<open>nm\<close> finds, and \<open>without imgs c\<close> is the catalog once the ids
  of \<open>imgs\<close> are gone.
\<close>

definition is_create :: "event \<Rightarrow> bool" where
  "is_create e = (case e of Call (CreateImage nm f) a \<Rightarrow> True | _ \<Rightarrow> False)"

definition is_refused :: "event \<Rightarrow> bool" where
  "is_refused e = (case e of Call (DeleteImage i) ReturnedFalse \<Rightarrow> True | _ \<Rightarrow> False)"

definition is_image_call :: "event \<Rightarrow> bool" where
  "is_image_call e =
     (case e of Call (CreateImage nm f) a \<Rightarrow> True | Call (DeleteImage i) a \<Rightarrow> True | _ \<Rightarrow> False)"

definition deletions :: "image list \<Rightarrow> event list" where
  "deletions imgs = map (\<lambda>i. Call (DeleteImage (image_id i)) Returned) imgs"

definition matching :: "string \<Rightarrow> image list \<Rightarrow> image list" where
  "matching nm imgs = filter (\<lambda>i. image_id i = nm \<or> image_name i = nm) imgs"

definition without :: "image list \<Rightarrow> image list \<Rightarrow> image list" where
  "without imgs c = filter (\<lambda>x. image_id x \<notin> image_id ` set imgs) c"

text \<open>
  How publishing an image from \<open>file\<close> can go, from the catalog \<open>c\<close> to the catalog \<open>c'\<close>:
  either it stops with an error before any image is created, and the error is the
  duplicate-deletion error if a deletion was refused; or the journal ends with the
  deletions of every image found under the name, all done, followed by the creation.
\<close>

definition publishing :: "string \<Rightarrow> image list \<Rightarrow> exn + image \<Rightarrow> event list \<Rightarrow> image list \<Rightarrow> bool" where
  "publishing file c r new c' =
     ((\<not> list_ex is_create new
        \<and> (\<exists>e. r = Inl e \<and>
              (list_ex is_refused new \<longrightarrow>
                 e = ImageBuildError ''Failed to delete duplicate image on Openstack.'' None)))
    \<or> (\<exists>pre a. new = pre @ deletions (matching IMAGE_NAME c) @ [Call (CreateImage IMAGE_NAME file) a]
          \<and> \<not> list_ex is_image_call pre
          \<and> ((\<exists>exc. a = Raised exc
                 \<and> (r = Inl (Lib exc) \<or> r = Inl (ImageBuildError ''Failed to upload image.'' (Some exc))))
             \<or> (\<exists>img. a = Returned \<and> r = Inr img \<and> image_name img = IMAGE_NAME
                   \<and> image_file img = file
                   \<and> c' = without (matching IMAGE_NAME c) c @ [img]))))"

text \<open>
  A repository path; a catalog with two images under the name \<open>jammy\<close> and one under
  another; the same world when the cloud reports the second deletion as not done; clients
  whose look-up of the runner application fails, with the error of a missing binary and
  with another one; the build command without proxies; and the image a build adds.
\<close>

definition repo :: GithubPath where
  "repo = GithubPath ''canonical/repo''"

definition stale_world :: world where
  "stale_world = quiet_world\<lparr>catalog :=
     [\<lparr>image_id = ''a1'', image_name = ''jammy'', image_file = ''jammy-server-cloudimg-amd64-compressed.img''\<rparr>,
      \<lparr>image_id = ''b2'', image_name = ''jammy'', image_file = ''jammy-server-cloudimg-arm64-compressed.img''\<rparr>,
      \<lparr>image_id = ''c3'', image_name = ''noble'', image_file = ''noble-server-cloudimg-amd64.img''\<rparr>]\<rparr>"

definition stubborn_world :: world where
  "stubborn_world = stale_world\<lparr>refusal := (\<lambda>n. n = 8)\<rparr>"

definition no_binary :: GithubClient where
  "no_binary = github\<lparr>applications :=
     (\<lambda>p arch. Inl (LibExn RunnerBinaryError ''Unable to find runner application.''))\<rparr>"

definition gateway_down :: GithubClient where
  "gateway_down = github\<lparr>applications :=
     (\<lambda>p arch. Inl (LibExn OtherException ''502 Bad Gateway''))\<rparr>"

definition plain_command :: "string list" where
  "plain_command =
     [''/usr/bin/bash'', ''scripts/build-openstack-image.sh'', ''http://x/runner.tgz'', [], [], [],
      ''systemd-docker-proxy.j2'',
      json_dumps (JObject [(''proxies'', JObject [(''default'', JObject [])])])]"

definition new_jammy :: image where
  "new_jammy = \<lparr>image_id = ''image-9'', image_name = ''jammy'',
                 image_file = ''jammy-server-cloudimg-amd64-compressed.img''\<rparr>"

section \<open>Properties\<close>

subsection \<open>The build command\<close>

lemma field_or_empty_eq:
  "field_or_empty proxies f = (case proxy_field proxies f of None \<Rightarrow> [] | Some s \<Rightarrow> s)"
  by (simp add: field_or_empty_def proxy_field_def truthy_def split: option.splits)

lemma build_image_command_run:
  "build_image_command runner_info proxies w =
     (case templates w ''systemd-docker-proxy.j2'' of
        Inl e \<Rightarrow> (Inl (Lib e), journal (Call (LoadTemplate ''systemd-docker-proxy.j2'') (Raised e)) w)
      | Inr t \<Rightarrow>
          (case t (DockerProxyVars proxies) of
             Inl e \<Rightarrow>
               (Inl (Lib e),
                journal (Call (Render ''systemd-docker-proxy.j2'' (DockerProxyVars proxies)) (Raised e))
                  (journal (Call (LoadTemplate ''systemd-docker-proxy.j2'') Returned) w))
           | Inr conf \<Rightarrow>
               (Inr [''/usr/bin/bash'', ''scripts/build-openstack-image.sh'', download_url runner_info,
                     field_or_empty proxies http, field_or_empty proxies https,
                     field_or_empty proxies no_proxy, conf,
                     json_dumps (docker_proxy (field_or_empty proxies http)
                       (field_or_empty proxies https) (field_or_empty proxies no_proxy))],
                journal (Call (Render ''systemd-docker-proxy.j2'' (DockerProxyVars proxies)) Returned)
                  (journal (Call (LoadTemplate ''systemd-docker-proxy.j2'') Returned) w))))"
  by (simp add: build_image_command_def andthen_def get_template_def render_def ret_def Let_def
      BUILD_OPENSTACK_IMAGE_SCRIPT_FILENAME_def split: sum.splits)

lemma docker_proxy_entries:
  "\<exists>entries. docker_proxy a b c = JObject [(''proxies'', JObject [(''default'', JObject entries)])]
     \<and> distinct (map fst entries)
     \<and> (\<forall>k v. map_of entries k = Some v \<longleftrightarrow>
           (k = ''httpProxy'' \<and> a \<noteq> [] \<and> v = JString a)
         \<or> (k = ''httpsProxy'' \<and> b \<noteq> [] \<and> v = JString b)
         \<or> (k = ''noProxy'' \<and> c \<noteq> [] \<and> v = JString c))"
  unfolding docker_proxy_def by auto

lemma field_or_empty_nonempty:
  "field_or_empty proxies f \<noteq> [] \<and> v = JString (field_or_empty proxies f)
     \<longleftrightarrow> (\<exists>s. proxy_field proxies f = Some s \<and> s \<noteq> [] \<and> v = JString s)"
  by (auto simp: field_or_empty_eq split: option.splits)

text \<open>
  C9. Whenever the proxy-service template renders, the build command is the interpreter
  and the script, followed by exactly six arguments in this order: the download URL, the
  three proxy fields (an absent or empty field as the empty string), the rendered
  proxy-service configuration and the JSON proxy descriptor.
\<close>

theorem build_image_command_arguments:
  assumes "templates w ''systemd-docker-proxy.j2'' = Inr template"
    and "template (DockerProxyVars proxies) = Inr conf"
  shows "build_image_command runner_info proxies w =
     (Inr [''/usr/bin/bash'', ''scripts/build-openstack-image.sh'',
           download_url runner_info,
           (case proxy_field proxies http of None \<Rightarrow> [] | Some s \<Rightarrow> s),
           (case proxy_field proxies https of None \<Rightarrow> [] | Some s \<Rightarrow> s),
           (case proxy_field proxies no_proxy of None \<Rightarrow> [] | Some s \<Rightarrow> s),
           conf,
           json_dumps (docker_proxy
             (case proxy_field proxies http of None \<Rightarrow> [] | Some s \<Rightarrow> s)
             (case proxy_field proxies https of None \<Rightarrow> [] | Some s \<Rightarrow> s)
             (case proxy_field proxies no_proxy of None \<Rightarrow> [] | Some s \<Rightarrow> s))],
      journal (Call (Render ''systemd-docker-proxy.j2'' (DockerProxyVars proxies)) Returned)
        (journal (Call (LoadTemplate ''systemd-docker-proxy.j2'') Returned) w))"
  using assms by (simp add: build_image_command_run field_or_empty_eq)

theorem build_image_command_arguments_witness:
  "templates quiet_world ''systemd-docker-proxy.j2'' = Inr (\<lambda>vars. Inr ''systemd-docker-proxy.j2'')
   \<and> (\<lambda>vars. Inr ''systemd-docker-proxy.j2'') (DockerProxyVars squid) = (Inr ''systemd-docker-proxy.j2'' :: lib_exn + string)
   \<and> build_image_command runner_x64 squid quiet_world =
       (Inr [''/usr/bin/bash'', ''scripts/build-openstack-image.sh'', ''http://x/runner.tgz'',
             ''http://squid:3128'', [], [], ''systemd-docker-proxy.j2'',
             json_dumps (JObject [(''proxies'', JObject [(''default'',
               JObject [(''httpProxy'', JString ''http://squid:3128'')])])])],
        journal (Call (Render ''systemd-docker-proxy.j2'' (DockerProxyVars squid)) Returned)
          (journal (Call (LoadTemplate ''systemd-docker-proxy.j2'') Returned) quiet_world))"
  using build_image_command_arguments [where w = quiet_world
      and template = "\<lambda>vars. Inr ''systemd-docker-proxy.j2''" and proxies = squid
      and conf = "''systemd-docker-proxy.j2''" and runner_info = runner_x64]
  by (simp add: quiet_world_def squid_def runner_x64_def proxy_field_def docker_proxy_def)

text \<open>
  C4. The last argument of the build command is the JSON text of a document whose
  \<open>default\<close> entry, under \<open>proxies\<close>, has pairwise distinct keys and binds a key to a value
  exactly when the key is one of \<open>httpProxy\<close>, \<open>httpsProxy\<close>, \<open>noProxy\<close>, the corresponding
  field of the configuration is present and not empty, and the value is that field.
\<close>

theorem docker_proxy_keys:
  assumes "build_image_command runner_info proxies w = (Inr cmd, w')"
  shows "\<exists>entries.
      length cmd = 8
    \<and> last cmd = json_dumps (JObject [(''proxies'', JObject [(''default'', JObject entries)])])
    \<and> distinct (map fst entries)
    \<and> (\<forall>k v. map_of entries k = Some v \<longleftrightarrow>
          (k = ''httpProxy'' \<and> (\<exists>s. proxy_field proxies http = Some s \<and> s \<noteq> [] \<and> v = JString s))
        \<or> (k = ''httpsProxy'' \<and> (\<exists>s. proxy_field proxies https = Some s \<and> s \<noteq> [] \<and> v = JString s))
        \<or> (k = ''noProxy'' \<and> (\<exists>s. proxy_field proxies no_proxy = Some s \<and> s \<noteq> [] \<and> v = JString s)))"
proof -
  let ?a = "field_or_empty proxies http"
  let ?b = "field_or_empty proxies https"
  let ?c = "field_or_empty proxies no_proxy"
  from assms have cmd: "length cmd = 8" "last cmd = json_dumps (docker_proxy ?a ?b ?c)"
    by (auto simp: build_image_command_run split: sum.splits)
  obtain entries where e:
    "docker_proxy ?a ?b ?c = JObject [(''proxies'', JObject [(''default'', JObject entries)])]"
    "distinct (map fst entries)"
    "\<forall>k v. map_of entries k = Some v \<longleftrightarrow>
           (k = ''httpProxy'' \<and> ?a \<noteq> [] \<and> v = JString ?a)
         \<or> (k = ''httpsProxy'' \<and> ?b \<noteq> [] \<and> v = JString ?b)
         \<or> (k = ''noProxy'' \<and> ?c \<noteq> [] \<and> v = JString ?c)"
    using docker_proxy_entries [of ?a ?b ?c] by blast
  from e(3) have "\<forall>k v. map_of entries k = Some v \<longleftrightarrow>
          (k = ''httpProxy'' \<and> (\<exists>s. proxy_field proxies http = Some s \<and> s \<noteq> [] \<and> v = JString s))
        \<or> (k = ''httpsProxy'' \<and> (\<exists>s. proxy_field proxies https = Some s \<and> s \<noteq> [] \<and> v = JString s))
        \<or> (k = ''noProxy'' \<and> (\<exists>s. proxy_field proxies no_proxy = Some s \<and> s \<noteq> [] \<and> v = JString s))"
    unfolding field_or_empty_nonempty .
  with cmd e(1,2) show ?thesis by auto
qed

theorem docker_proxy_keys_witness:
  "build_image_command runner_x64 squid quiet_world =
       (Inr squid_command,
        journal (Call (Render ''systemd-docker-proxy.j2'' (DockerProxyVars squid)) Returned)
          (journal (Call (LoadTemplate ''systemd-docker-proxy.j2'') Returned) quiet_world))
   \<and> (\<exists>entries.
      length squid_command = 8
    \<and> last squid_command = json_dumps (JObject [(''proxies'', JObject [(''default'', JObject entries)])])
    \<and> distinct (map fst entries)
    \<and> (\<forall>k v. map_of entries k = Some v \<longleftrightarrow>
          (k = ''httpProxy'' \<and> (\<exists>s. proxy_field squid http = Some s \<and> s \<noteq> [] \<and> v = JString s))
        \<or> (k = ''httpsProxy'' \<and> (\<exists>s. proxy_field squid https = Some s \<and> s \<noteq> [] \<and> v = JString s))
        \<or> (k = ''noProxy'' \<and> (\<exists>s. proxy_field squid no_proxy = Some s \<and> s \<noteq> [] \<and> v = JString s))))"
proof -
  have run: "build_image_command runner_x64 squid quiet_world =
       (Inr squid_command,
        journal (Call (Render ''systemd-docker-proxy.j2'' (DockerProxyVars squid)) Returned)
          (journal (Call (LoadTemplate ''systemd-docker-proxy.j2'') Returned) quiet_world))"
    by (simp add: build_image_command_run quiet_world_def squid_def runner_x64_def
        field_or_empty_def truthy_def docker_proxy_def squid_command_def)
  show ?thesis
    using run docker_proxy_keys [OF run] by (rule conjI)
qed

subsection \<open>Runs and their journal\<close>

lemma events_journal [simp]: "events (journal e w) = events w @ [e]"
  by (simp add: journal_def)

lemma yieldsI: "(\<And>w. \<exists>new. events (snd (m w)) = events w @ new \<and> Q (fst (m w)) new) \<Longrightarrow> yields m Q"
  by (simp add: yields_def)

lemma yieldsD: "yields m Q \<Longrightarrow> \<exists>new. events (snd (m w)) = events w @ new \<and> Q (fst (m w)) new"
  by (simp add: yields_def)

lemma yields_weaken: "yields m Q \<Longrightarrow> (\<And>r new. Q r new \<Longrightarrow> Q' r new) \<Longrightarrow> yields m Q'"
  unfolding yields_def by blast

lemma yields_ret: "Q (Inr x) [] \<Longrightarrow> yields (ret x) Q"
  by (simp add: yields_def ret_def)

lemma yields_throw: "Q (Inl e) [] \<Longrightarrow> yields (throw e) Q"
  by (simp add: yields_def throw_def)

lemma yields_andthen:
  assumes m: "yields m Qa"
    and f: "\<And>x. yields (f x) (Qb x)"
    and stop: "\<And>e new. Qa (Inl e) new \<Longrightarrow> Q (Inl e) new"
    and cont: "\<And>x new1 r new2. Qa (Inr x) new1 \<Longrightarrow> Qb x r new2 \<Longrightarrow> Q r (new1 @ new2)"
  shows "yields (andthen m f) Q"
proof (rule yieldsI)
  fix w
  obtain r1 w1 where mw: "m w = (r1, w1)" by (cases "m w")
  from yieldsD [OF m, of w] mw obtain new1 where n1: "events w1 = events w @ new1" "Qa r1 new1"
    by auto
  show "\<exists>new. events (snd (andthen m f w)) = events w @ new \<and> Q (fst (andthen m f w)) new"
  proof (cases r1)
    case (Inl e)
    with mw n1 stop show ?thesis by (auto simp: andthen_def)
  next
    case (Inr x)
    from yieldsD [OF f, of x w1] obtain new2 where
      n2: "events (snd (f x w1)) = events w1 @ new2" "Qb x (fst (f x w1)) new2" by auto
    from Inr n1 n2 cont have "Q (fst (f x w1)) (new1 @ new2)" by blast
    with Inr mw n1 n2 show ?thesis by (auto simp: andthen_def)
  qed
qed

lemma yields_reraise_from:
  assumes "yields m Qa" and "\<And>r new. Qa r new \<Longrightarrow> Q (reraised C D r) new"
  shows "yields (reraise_from C D m) Q"
proof (rule yieldsI)
  fix w
  from yieldsD [OF assms(1), of w] assms(2)
  show "\<exists>new. events (snd (reraise_from C D m w)) = events w @ new \<and> Q (fst (reraise_from C D m w)) new"
    by (auto simp: reraise_from_def split: prod.splits)
qed

lemma yields_get_template:
  "yields (get_template n)
     (\<lambda>r new. (\<exists>exc. r = Inl (Lib exc) \<and> new = [Call (LoadTemplate n) (Raised exc)])
             \<or> (\<exists>f. r = Inr (n, f) \<and> new = [Call (LoadTemplate n) Returned]))"
  by (rule yieldsI) (simp add: get_template_def split: sum.splits)

lemma yields_render:
  "yields (render t vars)
     (\<lambda>r new. (\<exists>exc. r = Inl (Lib exc) \<and> new = [Call (Render (fst t) vars) (Raised exc)])
             \<or> (\<exists>doc. r = Inr doc \<and> new = [Call (Render (fst t) vars) Returned]))"
  by (rule yieldsI) (simp add: render_def split: sum.splits)

lemma yields_log_warning:
  "yields (log_warning msg) (\<lambda>r new. r = Inr () \<and> new = [LogWarning msg])"
  by (rule yieldsI) (simp add: log_warning_def)

lemma yields_openstack_connect:
  "yields (openstack_connect n)
     (\<lambda>r new. (\<exists>exc. r = Inl (Lib exc) \<and> new = [Call (Connect n) (Raised exc)])
             \<or> (r = Inr (Connection n) \<and> new = [Call (Connect n) Returned]))"
  by (rule yieldsI) (simp add: openstack_connect_def split: option.splits)

lemma yields_create_server:
  "yields (create_server conn n i f u wt)
     (\<lambda>r new. (\<exists>exc. r = Inl (Lib exc) \<and> new = [Call (CreateServer n i f u) (Raised exc)])
             \<or> (r = Inr \<lparr>server_name = n, server_image = i, flavor = f, userdata = u\<rparr>
                 \<and> new = [Call (CreateServer n i f u) Returned]))"
  by (rule yieldsI) (simp add: create_server_def Let_def split: option.splits)

lemma yields_create_connection:
  "yields (create_connection cloud_config) (connecting cloud_config)"
proof (cases "map_of cloud_config ''clouds''")
  case None
  then show ?thesis
    by (simp add: create_connection_def connecting_def yields_throw)
next
  case (Some profiles)
  show ?thesis
  proof (cases profiles)
    case Nil
    with Some show ?thesis
      by (simp add: create_connection_def connecting_def andthen_def ret_def throw_def yields_def)
  next
    case (Cons profile others)
    have "yields (andthen
            (if others \<noteq> []
             then log_warning ''Multiple clouds defined in clouds.yaml. Using the first one to connect.''
             else ret ())
            (\<lambda>_. openstack_connect (fst profile))) (connecting cloud_config)"
    proof (rule yields_andthen [where
          Qa = "\<lambda>r new. r = Inr () \<and> new = (if others = [] then []
                      else [LogWarning ''Multiple clouds defined in clouds.yaml. Using the first one to connect.''])"
          and Qb = "\<lambda>x r new. (\<exists>exc. r = Inl (Lib exc) \<and> new = [Call (Connect (fst profile)) (Raised exc)])
             \<or> (r = Inr (Connection (fst profile)) \<and> new = [Call (Connect (fst profile)) Returned])"],
        goal_cases)
      case 1
      show ?case by (simp add: yields_log_warning yields_ret)
    next
      case (2 x)
      show ?case by (rule yields_openstack_connect)
    next
      case (3 e new)
      then show ?case by simp
    next
      case (4 x new1 r new2)
      then show ?case using Some Cons by (auto simp: connecting_def)
    qed
    with Some Cons show ?thesis
      by (simp add: create_connection_def Let_def)
  qed
qed

subsection \<open>The instance configuration\<close>

lemma rsplit1_found:
  assumes "sep \<in> set s"
  shows "\<exists>before after. rsplit1 sep s = [before, after] \<and> s = before @ [sep] @ after \<and> sep \<notin> set after"
proof -
  let ?P = "\<lambda>c. c \<noteq> sep"
  let ?tw = "takeWhile ?P (rev s)"
  let ?dw = "dropWhile ?P (rev s)"
  from assms have "?dw \<noteq> []" by (simp add: dropWhile_eq_Nil_conv)
  moreover have "hd ?dw = sep" using \<open>?dw \<noteq> []\<close> hd_dropWhile [of ?P "rev s"] by simp
  ultimately have dw: "?dw = sep # tl ?dw" by (cases ?dw) auto
  have "rev s = ?tw @ ?dw" by simp
  with dw have "rev s = ?tw @ sep # tl ?dw" by simp
  then have "rev (rev s) = rev (?tw @ sep # tl ?dw)" by (rule arg_cong)
  then have s: "s = rev (tl ?dw) @ [sep] @ rev ?tw" by simp
  have "sep \<notin> set (rev ?tw)" using set_takeWhileD [of sep ?P "rev s"] by auto
  with s assms show ?thesis by (auto simp: rsplit1_def)
qed

lemma hexdigit_hex: "hexdigit n \<in> hex_digits"
proof -
  have "n mod 16 < length ''0123456789abcdef''" by simp
  then show ?thesis unfolding hexdigit_def hex_digits_def by (rule nth_mem)
qed

lemma token_hex_run:
  "\<exists>suffix. secrets_token_hex n w = (Inr suffix, w\<lparr>drawn := drawn w + n\<rparr>)
     \<and> length suffix = 2 * n \<and> set suffix \<subseteq> hex_digits"
proof -
  let ?f = "\<lambda>i. let b = entropy w (drawn w + i) mod 256 in [hexdigit (b div 16), hexdigit b]"
  have len: "length (concat (map ?f xs)) = 2 * length xs" for xs
    by (induction xs) (simp_all add: Let_def)
  have sub: "set (concat (map ?f xs)) \<subseteq> hex_digits" for xs
    by (induction xs) (simp_all add: Let_def hexdigit_hex)
  show ?thesis
  proof (intro exI conjI)
    show "secrets_token_hex n w = (Inr (concat (map ?f [0..<n])), w\<lparr>drawn := drawn w + n\<rparr>)"
      by (simp add: secrets_token_hex_def)
    show "length (concat (map ?f [0..<n])) = 2 * n"
      using len [of "[0..<n]"] by simp
    show "set (concat (map ?f [0..<n])) \<subseteq> hex_digits"
      by (rule sub)
  qed
qed

text \<open>
  C10. When the unit name contains a slash and the client hands out a token, the
  configuration returned is named \<open>app_name-unit_num-suffix\<close>, where \<open>app_name\<close> and
  \<open>unit_num\<close> are the parts of the unit name before and after its last slash and the
  suffix is 24 hexadecimal digits, and its labels are \<open>app_name\<close> and \<open>jammy\<close>. When the
  unit name contains no slash, a \<open>ValueError\<close> is raised and the world is untouched: the
  client has not been contacted.
\<close>

theorem create_instance_config_name:
  "(CHR ''/'' \<in> set unit_name \<longrightarrow> tokens github_client p = Inr token \<longrightarrow>
      (\<exists>app_name unit_num suffix.
          unit_name = app_name @ ''/'' @ unit_num \<and> CHR ''/'' \<notin> set unit_num
        \<and> length suffix = 24 \<and> set suffix \<subseteq> hex_digits
        \<and> create_instance_config unit_name img p github_client w =
            (Inr \<lparr>name = app_name @ ''-'' @ unit_num @ ''-'' @ suffix,
                  labels = [app_name, ''jammy''],
                  registration_token = token, github_path = p, openstack_image = img\<rparr>,
             journal (Call (GetRunnerRegistrationToken p) Returned) (w\<lparr>drawn := drawn w + 12\<rparr>))))
 \<and> (CHR ''/'' \<notin> set unit_name \<longrightarrow>
      (\<exists>msg. create_instance_config unit_name img p github_client w = (Inl (ValueError msg), w)))"
proof (intro conjI impI)
  assume slash: "CHR ''/'' \<in> set unit_name" and tok: "tokens github_client p = Inr token"
  from rsplit1_found [OF slash] obtain app_name unit_num where
    sp: "rsplit1 CHR ''/'' unit_name = [app_name, unit_num]"
      "unit_name = app_name @ ''/'' @ unit_num" "CHR ''/'' \<notin> set unit_num"
    by auto
  from token_hex_run [of 12 w] obtain suffix where
    sx: "secrets_token_hex 12 w = (Inr suffix, w\<lparr>drawn := drawn w + 12\<rparr>)"
      "length suffix = 24" "set suffix \<subseteq> hex_digits"
    by auto
  have "create_instance_config unit_name img p github_client w =
            (Inr \<lparr>name = app_name @ ''-'' @ unit_num @ ''-'' @ suffix,
                  labels = [app_name, ''jammy''],
                  registration_token = token, github_path = p, openstack_image = img\<rparr>,
             journal (Call (GetRunnerRegistrationToken p) Returned) (w\<lparr>drawn := drawn w + 12\<rparr>))"
    by (simp add: create_instance_config_def sp(1) andthen_def sx(1)
        get_runner_registration_token_def tok ret_def)
  with sp(2,3) sx(2,3) show "\<exists>app_name unit_num suffix.
          unit_name = app_name @ ''/'' @ unit_num \<and> CHR ''/'' \<notin> set unit_num
        \<and> length suffix = 24 \<and> set suffix \<subseteq> hex_digits
        \<and> create_instance_config unit_name img p github_client w =
            (Inr \<lparr>name = app_name @ ''-'' @ unit_num @ ''-'' @ suffix,
                  labels = [app_name, ''jammy''],
                  registration_token = token, github_path = p, openstack_image = img\<rparr>,
             journal (Call (GetRunnerRegistrationToken p) Returned) (w\<lparr>drawn := drawn w + 12\<rparr>))"
    by blast
next
  assume "CHR ''/'' \<notin> set unit_name"
  then show "\<exists>msg. create_instance_config unit_name img p github_client w = (Inl (ValueError msg), w)"
    by (simp add: create_instance_config_def rsplit1_def throw_def)
qed

theorem create_instance_config_name_witness:
  "CHR ''/'' \<in> set ''github-runner/3''
 \<and> tokens github (GithubPath ''canonical/repo'') = Inr ''AAAA''
 \<and> (\<exists>app_name unit_num suffix.
          ''github-runner/3'' = app_name @ ''/'' @ unit_num \<and> CHR ''/'' \<notin> set unit_num
        \<and> length suffix = 24 \<and> set suffix \<subseteq> hex_digits
        \<and> create_instance_config ''github-runner/3'' focal (GithubPath ''canonical/repo'') github quiet_world =
            (Inr \<lparr>name = app_name @ ''-'' @ unit_num @ ''-'' @ suffix,
                  labels = [app_name, ''jammy''],
                  registration_token = ''AAAA'', github_path = GithubPath ''canonical/repo'',
                  openstack_image = focal\<rparr>,
             journal (Call (GetRunnerRegistrationToken (GithubPath ''canonical/repo'')) Returned)
               (quiet_world\<lparr>drawn := drawn quiet_world + 12\<rparr>)))
 \<and> CHR ''/'' \<notin> set ''github-runner''
 \<and> (\<exists>msg. create_instance_config ''github-runner'' focal (GithubPath ''canonical/repo'') github quiet_world =
        (Inl (ValueError msg), quiet_world))"
proof -
  have a: "CHR ''/'' \<in> set ''github-runner/3''" by simp
  have b: "tokens github (GithubPath ''canonical/repo'') = Inr ''AAAA''" by (simp add: github_def)
  have c: "CHR ''/'' \<notin> set ''github-runner''" by simp
  note t1 = create_instance_config_name [of "''github-runner/3''" github "GithubPath ''canonical/repo''"
      "''AAAA''" focal quiet_world, THEN conjunct1, rule_format, OF a b]
  note t2 = create_instance_config_name [of "''github-runner''" github "GithubPath ''canonical/repo''"
      "''AAAA''" focal quiet_world, THEN conjunct2, rule_format, OF c]
  from a b c t1 t2 show ?thesis by (intro conjI)
qed

subsection \<open>Building and publishing the image\<close>

lemma catalog_journal [simp]: "catalog (journal e w) = catalog w"
  by (simp add: journal_def)

lemma is_image_call_simps [simp]:
  "is_image_call (Call (DeleteImage i) a)" "is_image_call (Call (CreateImage nm f) a)"
  "\<not> is_image_call (Call (Connect n) a)" "\<not> is_image_call (Call (SearchImages n) a)"
  "\<not> is_image_call (LogWarning msg)" "\<not> is_image_call (Call (GetRunnerApplication p arch) a)"
  "\<not> is_image_call (Call (ExecuteCommand cmd) a)" "\<not> is_image_call (Call (Render t v) a)"
  "\<not> is_image_call (Call (LoadTemplate t) a)"
  by (simp_all add: is_image_call_def)

lemma is_create_simps [simp]:
  "is_create (Call (CreateImage nm f) a)" "\<not> is_create (Call (DeleteImage i) a)"
  "\<not> is_create (Call (Connect n) a)" "\<not> is_create (Call (SearchImages n) a)"
  "\<not> is_create (LogWarning msg)" "\<not> is_create (Call (GetRunnerApplication p arch) a)"
  "\<not> is_create (Call (ExecuteCommand cmd) a)" "\<not> is_create (Call (Render t v) a)"
  "\<not> is_create (Call (LoadTemplate t) a)"
  by (simp_all add: is_create_def)

lemma is_refused_simps [simp]:
  "is_refused (Call (DeleteImage i) ReturnedFalse)" "\<not> is_refused (Call (DeleteImage i) Returned)"
  "\<not> is_refused (Call (DeleteImage i) (Raised exc))" "\<not> is_refused (Call (CreateImage nm f) a)"
  "\<not> is_refused (Call (Connect n) a)" "\<not> is_refused (Call (SearchImages n) a)"
  "\<not> is_refused (LogWarning msg)" "\<not> is_refused (Call (GetRunnerApplication p arch) a)"
  "\<not> is_refused (Call (ExecuteCommand cmd) a)" "\<not> is_refused (Call (Render t v) a)"
  "\<not> is_refused (Call (LoadTemplate t) a)"
  by (simp_all add: is_refused_def)

lemma not_image_call: "\<not> is_image_call e \<Longrightarrow> \<not> is_create e \<and> \<not> is_refused e"
  by (auto simp: is_image_call_def is_create_def is_refused_def
      split: event.splits call.splits answer.splits)

lemma no_image_calls: "\<not> list_ex is_image_call es \<Longrightarrow> \<not> list_ex is_create es \<and> \<not> list_ex is_refused es"
  by (auto simp: list_ex_iff dest: not_image_call)

lemma deletions_quiet [simp]:
  "\<not> list_ex is_create (deletions imgs)" "\<not> list_ex is_refused (deletions imgs)"
  by (simp_all add: deletions_def list_ex_iff)

lemma delete_image_cases:
  assumes "delete_image conn i wt w = (r, w')"
  obtains
    (raised) exc where "r = Inl (Lib exc)" "events w' = events w @ [Call (DeleteImage i) (Raised exc)]"
      "catalog w' = catalog w"
  | (refused) "r = Inr False" "events w' = events w @ [Call (DeleteImage i) ReturnedFalse]"
      "catalog w' = catalog w"
  | (deleted) "r = Inr True" "events w' = events w @ [Call (DeleteImage i) Returned]"
      "catalog w' = filter (\<lambda>x. image_id x \<noteq> i) (catalog w)"
  using assms by (auto simp: delete_image_def split: option.splits if_splits)

lemma delete_existing_images_shape:
  "delete_existing_images conn imgs w = (r, w') \<Longrightarrow>
     (r = Inr () \<and> events w' = events w @ deletions imgs \<and> catalog w' = without imgs (catalog w))
   \<or> (\<exists>new e. events w' = events w @ new \<and> \<not> list_ex is_create new \<and> r = Inl e
        \<and> (list_ex is_refused new \<longrightarrow>
              e = ImageBuildError ''Failed to delete duplicate image on Openstack.'' None))"
proof (induction imgs arbitrary: w)
  case Nil
  then show ?case by (auto simp: deletions_def without_def)
next
  case (Cons a imgs)
  obtain r1 w1 where d: "delete_image conn (image_id a) True w = (r1, w1)"
    by (cases "delete_image conn (image_id a) True w")
  from d show ?case
  proof (cases rule: delete_image_cases)
    case (raised exc)
    with Cons.prems d show ?thesis by auto
  next
    case refused
    with Cons.prems d show ?thesis by auto
  next
    case deleted
    with Cons.prems d have rest: "delete_existing_images conn imgs w1 = (r, w')"
      by simp
    from Cons.IH [OF rest] show ?thesis
    proof
      assume "r = Inr () \<and> events w' = events w1 @ deletions imgs \<and> catalog w' = without imgs (catalog w1)"
      with deleted have "r = Inr () \<and> events w' = events w @ deletions (a # imgs)
          \<and> catalog w' = without (a # imgs) (catalog w)"
        by (auto simp: deletions_def without_def intro: filter_cong)
      then show ?thesis by blast
    next
      assume "\<exists>new e. events w' = events w1 @ new \<and> \<not> list_ex is_create new \<and> r = Inl e
        \<and> (list_ex is_refused new \<longrightarrow>
              e = ImageBuildError ''Failed to delete duplicate image on Openstack.'' None)"
      then obtain new e where n: "events w' = events w1 @ new" "\<not> list_ex is_create new" "r = Inl e"
        "list_ex is_refused new \<longrightarrow>
              e = ImageBuildError ''Failed to delete duplicate image on Openstack.'' None"
        by blast
      with deleted have "events w' = events w @ (Call (DeleteImage (image_id a)) Returned # new)
          \<and> \<not> list_ex is_create (Call (DeleteImage (image_id a)) Returned # new) \<and> r = Inl e
          \<and> (list_ex is_refused (Call (DeleteImage (image_id a)) Returned # new) \<longrightarrow>
              e = ImageBuildError ''Failed to delete duplicate image on Openstack.'' None)"
        by simp
      then show ?thesis by blast
    qed
  qed
qed


lemma create_connection_frame:
  assumes "create_connection cloud_config w = (r, w')"
  shows "\<exists>new. events w' = events w @ new \<and> \<not> list_ex is_image_call new \<and> catalog w' = catalog w"
  using assms
  by (auto simp: create_connection_def throw_def andthen_def log_warning_def ret_def
      openstack_connect_def Let_def split: option.splits list.splits if_splits)

lemma search_images_cases:
  assumes "search_images conn n w = (r, w')"
  obtains
    (raised) exc where "r = Inl (Lib exc)" "w' = journal (Call (SearchImages n) (Raised exc)) w"
  | (found) "r = Inr (matching n (catalog w))" "w' = journal (Call (SearchImages n) Returned) w"
  using assms by (auto simp: search_images_def matching_def split: option.splits)

lemma create_image_cases:
  assumes "create_image conn nm f wt w = (r, w')"
  obtains
    (raised) exc where "r = Inl (Lib exc)" "events w' = events w @ [Call (CreateImage nm f) (Raised exc)]"
  | (created) img where "r = Inr img" "image_name img = nm" "image_file img = f"
      "events w' = events w @ [Call (CreateImage nm f) Returned]" "catalog w' = catalog w @ [img]"
  using assms by (auto simp: create_image_def Let_def split: option.splits)

lemma publishingI_stopped:
  "\<not> list_ex is_create new \<Longrightarrow>
   (list_ex is_refused new \<Longrightarrow> e = ImageBuildError ''Failed to delete duplicate image on Openstack.'' None) \<Longrightarrow>
   publishing file c (Inl e) new c'"
  by (auto simp: publishing_def)

lemma publish_image_shape:
  assumes run: "publish_image cloud_config app w = (r, w')"
  shows "\<exists>new. events w' = events w @ new
    \<and> publishing (IMAGE_PATH_TMPL (if architecture app = ''x64'' then ''amd64'' else ''arm64''))
         (catalog w) r new (catalog w')"
proof -
  let ?file = "IMAGE_PATH_TMPL (if architecture app = ''x64'' then ''amd64'' else ''arm64'')"
  obtain rc w1 where c: "create_connection cloud_config w = (rc, w1)"
    by (cases "create_connection cloud_config w")
  from create_connection_frame [OF c] obtain n1 where
    n1: "events w1 = events w @ n1" "\<not> list_ex is_image_call n1" "catalog w1 = catalog w"
    by blast
  from n1(2) have q1: "\<not> list_ex is_create n1" "\<not> list_ex is_refused n1"
    using no_image_calls by blast+
  show ?thesis
  proof (cases rc)
    case (Inl e)
    with run c have "r = Inl e" "w' = w1"
      by (simp_all add: publish_image_def andthen_def)
    with n1 q1 show ?thesis
      by (auto intro!: publishingI_stopped)
  next
    case (Inr conn)
    obtain rs w2 where s: "search_images conn IMAGE_NAME w1 = (rs, w2)"
      by (cases "search_images conn IMAGE_NAME w1")
    from s show ?thesis
    proof (cases rule: search_images_cases)
      case (raised exc)
      with run c Inr s have "r = Inl (Lib exc)" "w' = w2"
        by (simp_all add: publish_image_def andthen_def Let_def)
      with raised n1 q1 have "events w' = events w @ (n1 @ [Call (SearchImages IMAGE_NAME) (Raised exc)])"
        and "publishing ?file (catalog w) r (n1 @ [Call (SearchImages IMAGE_NAME) (Raised exc)]) (catalog w')"
        by (auto intro!: publishingI_stopped)
      then show ?thesis by blast
    next
      case found
      let ?imgs = "matching IMAGE_NAME (catalog w)"
      let ?n2 = "n1 @ [Call (SearchImages IMAGE_NAME) Returned]"
      from found n1 have w2: "events w2 = events w @ ?n2" "catalog w2 = catalog w"
        and rs: "rs = Inr ?imgs"
        by simp_all
      obtain rd w3 where d: "delete_existing_images conn ?imgs w2 = (rd, w3)"
        by (cases "delete_existing_images conn ?imgs w2")
      from delete_existing_images_shape [OF d] show ?thesis
      proof
        assume ok: "rd = Inr () \<and> events w3 = events w2 @ deletions ?imgs
            \<and> catalog w3 = without ?imgs (catalog w2)"
        with run c Inr s rs d have cr: "create_image conn IMAGE_NAME ?file True w3 = (r, w')"
          by (simp add: publish_image_def andthen_def Let_def)
        have pre: "\<not> list_ex is_image_call ?n2"
          using n1(2) by simp
        from cr show ?thesis
        proof (cases rule: create_image_cases)
          case (raised exc)
          with ok w2 have "events w' = events w @ (?n2 @ deletions ?imgs
              @ [Call (CreateImage IMAGE_NAME ?file) (Raised exc)])"
            by simp
          moreover from raised pre have "publishing ?file (catalog w) r
              (?n2 @ deletions ?imgs @ [Call (CreateImage IMAGE_NAME ?file) (Raised exc)]) (catalog w')"
            unfolding publishing_def by blast
          ultimately show ?thesis by blast
        next
          case (created img)
          with ok w2 have "events w' = events w @ (?n2 @ deletions ?imgs
              @ [Call (CreateImage IMAGE_NAME ?file) Returned])"
            and "catalog w' = without ?imgs (catalog w) @ [img]"
            by simp_all
          moreover from this created pre have "publishing ?file (catalog w) r
              (?n2 @ deletions ?imgs @ [Call (CreateImage IMAGE_NAME ?file) Returned]) (catalog w')"
            unfolding publishing_def by blast
          ultimately show ?thesis by blast
        qed
      next
        assume "\<exists>new e. events w3 = events w2 @ new \<and> \<not> list_ex is_create new \<and> rd = Inl e
          \<and> (list_ex is_refused new \<longrightarrow>
                e = ImageBuildError ''Failed to delete duplicate image on Openstack.'' None)"
        then obtain new e where f: "events w3 = events w2 @ new" "\<not> list_ex is_create new" "rd = Inl e"
          "list_ex is_refused new \<longrightarrow>
                e = ImageBuildError ''Failed to delete duplicate image on Openstack.'' None"
          by blast
        with run c Inr s rs d have "r = Inl e" "w' = w3"
          by (simp_all add: publish_image_def andthen_def Let_def)
        with f w2 q1 have "events w' = events w @ (?n2 @ new)"
          and "publishing ?file (catalog w) r (?n2 @ new) (catalog w')"
          by (auto intro!: publishingI_stopped)
        then show ?thesis by blast
      qed
    qed
  qed
qed

lemma publishingE:
  assumes "publishing file c r new c'"
  obtains
    (stopped) e where "\<not> list_ex is_create new" "r = Inl e"
      "list_ex is_refused new \<Longrightarrow> e = ImageBuildError ''Failed to delete duplicate image on Openstack.'' None"
  | (reached) pre a where
      "new = pre @ deletions (matching IMAGE_NAME c) @ [Call (CreateImage IMAGE_NAME file) a]"
      "\<not> list_ex is_image_call pre"
      "(\<exists>exc. a = Raised exc
          \<and> (r = Inl (Lib exc) \<or> r = Inl (ImageBuildError ''Failed to upload image.'' (Some exc))))
       \<or> (\<exists>img. a = Returned \<and> r = Inr img \<and> image_name img = IMAGE_NAME \<and> image_file img = file
             \<and> c' = without (matching IMAGE_NAME c) c @ [img])"
  using assms unfolding publishing_def by blast

lemma publishingI_reached:
  assumes "new = pre @ deletions (matching IMAGE_NAME c) @ [Call (CreateImage IMAGE_NAME file) a]"
    and "\<not> list_ex is_image_call pre"
    and "(\<exists>exc. a = Raised exc
          \<and> (r = Inl (Lib exc) \<or> r = Inl (ImageBuildError ''Failed to upload image.'' (Some exc))))
       \<or> (\<exists>img. a = Returned \<and> r = Inr img \<and> image_name img = IMAGE_NAME \<and> image_file img = file
             \<and> c' = without (matching IMAGE_NAME c) c @ [img])"
  shows "publishing file c r new c'"
  using assms unfolding publishing_def by blast

lemma publishing_after:
  assumes "publishing file c r new c'" and "\<not> list_ex is_image_call n0"
  shows "publishing file c r (n0 @ new) c'"
proof -
  from assms(2) have q: "\<not> list_ex is_create n0" "\<not> list_ex is_refused n0"
    using no_image_calls by blast+
  from assms(1) show ?thesis
  proof (cases rule: publishingE)
    case (stopped e)
    with q show ?thesis
      by (auto intro!: publishingI_stopped)
  next
    case (reached pre a)
    from reached(1) have "n0 @ new = (n0 @ pre) @ deletions (matching IMAGE_NAME c)
          @ [Call (CreateImage IMAGE_NAME file) a]"
      by simp
    moreover from reached(2) assms(2) have "\<not> list_ex is_image_call (n0 @ pre)"
      by simp
    ultimately show ?thesis
      using reached(3) by (rule publishingI_reached)
  qed
qed

lemma publishing_reraised:
  assumes "publishing file c r new c'"
  shows "publishing file c
    (reraised OpenStackCloudException (\<lambda>exc. ImageBuildError ''Failed to upload image.'' (Some exc)) r)
    new c'"
proof -
  let ?r = "reraised OpenStackCloudException (\<lambda>exc. ImageBuildError ''Failed to upload image.'' (Some exc)) r"
  from assms show ?thesis
  proof (cases rule: publishingE)
    case (stopped e)
    show ?thesis
    proof (cases "list_ex is_refused new")
      case True
      with stopped have "?r = Inl (ImageBuildError ''Failed to delete duplicate image on Openstack.'' None)"
        by (simp add: reraised_def)
      with stopped(1) show ?thesis
        by (auto intro!: publishingI_stopped)
    next
      case False
      from stopped(2) have "\<exists>e'. ?r = Inl e'"
        by (cases e) (simp_all add: reraised_def)
      then obtain e' where "?r = Inl e'" ..
      with stopped(1) False show ?thesis
        by (auto intro!: publishingI_stopped)
    qed
  next
    case (reached pre a)
    from reached(3) have "(\<exists>exc. a = Raised exc
          \<and> (?r = Inl (Lib exc) \<or> ?r = Inl (ImageBuildError ''Failed to upload image.'' (Some exc))))
       \<or> (\<exists>img. a = Returned \<and> ?r = Inr img \<and> image_name img = IMAGE_NAME \<and> image_file img = file
             \<and> c' = without (matching IMAGE_NAME c) c @ [img])"
      by (auto simp: reraised_def split: if_splits)
    with reached(1,2) show ?thesis
      by (rule publishingI_reached)
  qed
qed


lemma build_step_frame:
  assumes "reraise_from SubprocessError D
             (andthen (build_image_command app proxies) (\<lambda>cmd. execute_command cmd wt)) w = (r, w')"
  shows "\<exists>new. events w' = events w @ new \<and> \<not> list_ex is_image_call new \<and> catalog w' = catalog w"
proof -
  obtain rb w1 where b: "build_image_command app proxies w = (rb, w1)"
    by (cases "build_image_command app proxies w")
  then have w1: "\<exists>n1. events w1 = events w @ n1 \<and> \<not> list_ex is_image_call n1 \<and> catalog w1 = catalog w"
    by (auto simp: build_image_command_run split: sum.splits)
  then obtain n1 where n1: "events w1 = events w @ n1" "\<not> list_ex is_image_call n1"
    "catalog w1 = catalog w" by blast
  show ?thesis
  proof (cases rb)
    case (Inl e)
    with assms b have "w' = w1"
      by (simp add: reraise_from_def andthen_def)
    with n1 show ?thesis by blast
  next
    case (Inr cmd)
    with assms b have "w' = snd (execute_command cmd wt w1)"
      by (simp add: reraise_from_def andthen_def split: prod.splits)
    then have "\<exists>a. w' = journal (Call (ExecuteCommand cmd) a) w1"
      by (auto simp: execute_command_def split: option.splits)
    then obtain a where "w' = journal (Call (ExecuteCommand cmd) a) w1" ..
    with n1 have "events w' = events w @ (n1 @ [Call (ExecuteCommand cmd) a])"
      "\<not> list_ex is_image_call (n1 @ [Call (ExecuteCommand cmd) a])" "catalog w' = catalog w"
      by simp_all
    then show ?thesis by blast
  qed
qed

lemma build_image_client_failure:
  assumes "applications github_client p arch = Inl exc"
  shows "build_image arch cloud_config github_client p proxies w =
     (Inl (if lib_class exc = RunnerBinaryError
           then ImageBuildError ''Failed to fetch runner application.'' (Some exc)
           else Lib exc),
      journal (Call (GetRunnerApplication p arch) (Raised exc)) w)"
  using assms
  by (simp add: build_image_def andthen_def reraise_from_def reraised_def get_runner_application_def)

lemma build_image_shape:
  assumes app: "applications github_client p arch = Inr app"
    and run: "build_image arch cloud_config github_client p proxies w = (r, w')"
  shows "\<exists>new. events w' = events w @ new
    \<and> publishing (IMAGE_PATH_TMPL (if architecture app = ''x64'' then ''amd64'' else ''arm64''))
         (catalog w) r new (catalog w')"
proof -
  let ?file = "IMAGE_PATH_TMPL (if architecture app = ''x64'' then ''amd64'' else ''arm64'')"
  let ?w1 = "journal (Call (GetRunnerApplication p arch) Returned) w"
  let ?build = "reraise_from SubprocessError (\<lambda>exc. ImageBuildError ''Failed to build image.'' (Some exc))
      (andthen (build_image_command app proxies) (\<lambda>cmd. execute_command cmd True))"
  let ?publish = "reraise_from OpenStackCloudException
      (\<lambda>exc. ImageBuildError ''Failed to upload image.'' (Some exc)) (publish_image cloud_config app)"
  obtain rb w2 where b: "?build ?w1 = (rb, w2)"
    by (cases "?build ?w1")
  from build_step_frame [OF b] obtain nb where
    nb: "events w2 = events ?w1 @ nb" "\<not> list_ex is_image_call nb" "catalog w2 = catalog ?w1"
    by blast
  let ?n2 = "Call (GetRunnerApplication p arch) Returned # nb"
  from nb have w2: "events w2 = events w @ ?n2" "\<not> list_ex is_image_call ?n2" "catalog w2 = catalog w"
    by simp_all
  from app run b have rest: "(case rb of Inl e \<Rightarrow> (Inl e, w2) | Inr u \<Rightarrow> ?publish w2) = (r, w')"
    by (simp add: build_image_def andthen_def reraise_from_def reraised_def get_runner_application_def
        split: sum.splits)
  show ?thesis
  proof (cases rb)
    case (Inl e)
    with rest have "r = Inl e" "w' = w2" by simp_all
    moreover from w2(2) have "\<not> list_ex is_create ?n2" "\<not> list_ex is_refused ?n2"
      using no_image_calls by blast+
    ultimately have "publishing ?file (catalog w) r ?n2 (catalog w')"
      by (auto intro!: publishingI_stopped)
    with w2(1) \<open>w' = w2\<close> show ?thesis by blast
  next
    case (Inr u)
    obtain rp wp where p: "publish_image cloud_config app w2 = (rp, wp)"
      by (cases "publish_image cloud_config app w2")
    with Inr rest have r: "r = reraised OpenStackCloudException
        (\<lambda>exc. ImageBuildError ''Failed to upload image.'' (Some exc)) rp" and w': "w' = wp"
      by (simp_all add: reraise_from_def)
    from publish_image_shape [OF p] obtain new where
      new: "events wp = events w2 @ new" "publishing ?file (catalog w2) rp new (catalog wp)"
      by blast
    from new(2) have "publishing ?file (catalog w) r new (catalog w')"
      unfolding r w' w2(3) by (rule publishing_reraised)
    then have "publishing ?file (catalog w) r (?n2 @ new) (catalog w')"
      using w2(2) by (rule publishing_after)
    moreover from new(1) w2(1) w' have "events w' = events w @ (?n2 @ new)"
      by simp
    ultimately show ?thesis by blast
  qed
qed

subsection \<open>What a build leaves in the catalog\<close>

lemma new_events_eq: "events w' = events w @ new \<Longrightarrow> new_events w w' = new"
  by (simp add: new_events_def)


lemma create_in_publishing:
  assumes "publishing file c r new c'" and "Call (CreateImage nm f) a \<in> set new"
  shows "nm = IMAGE_NAME \<and> f = file
    \<and> (\<exists>pre. new = pre @ deletions (matching IMAGE_NAME c) @ [Call (CreateImage nm f) a]
          \<and> \<not> list_ex is_image_call pre)"
  using assms(1)
proof (cases rule: publishingE)
  case (stopped e)
  with assms(2) show ?thesis
    by (auto simp: list_ex_iff)
next
  case (reached pre a')
  from reached(2) have "Call (CreateImage nm f) a \<notin> set pre"
    by (auto simp: list_ex_iff)
  moreover have "Call (CreateImage nm f) a \<notin> set (deletions (matching IMAGE_NAME c))"
    by (auto simp: deletions_def)
  ultimately have "Call (CreateImage nm f) a = Call (CreateImage IMAGE_NAME file) a'"
    using assms(2) reached(1) by auto
  with reached(1,2) show ?thesis by auto
qed

lemma refused_in_publishing:
  assumes "publishing file c r new c'" and "Call (DeleteImage i) ReturnedFalse \<in> set new"
  shows "r = Inl (ImageBuildError ''Failed to delete duplicate image on Openstack.'' None)
    \<and> \<not> list_ex is_create new"
  using assms(1)
proof (cases rule: publishingE)
  case (stopped e)
  from assms(2) have "list_ex is_refused new"
    unfolding list_ex_iff by (rule bexI [rotated]) simp
  with stopped show ?thesis by simp
next
  case (reached pre a)
  from reached(2) have "Call (DeleteImage i) ReturnedFalse \<notin> set pre"
    by (auto simp: list_ex_iff)
  moreover have "Call (DeleteImage i) ReturnedFalse \<notin> set (deletions (matching IMAGE_NAME c))"
    by (auto simp: deletions_def)
  ultimately have False
    using assms(2) reached(1) by auto
  then show ?thesis ..
qed

lemma no_duplicate_left: "filter (\<lambda>i. image_name i = nm) (without (matching nm c) c) = []"
  by (auto simp: without_def matching_def filter_empty_conv)

lemma published_in_publishing:
  assumes "publishing file c (Inr img) new c'"
  shows "image_name img = IMAGE_NAME \<and> image_file img = file
    \<and> Call (CreateImage IMAGE_NAME file) Returned \<in> set new
    \<and> filter (\<lambda>i. image_name i = IMAGE_NAME) c' = [img]"
  using assms
proof (cases rule: publishingE)
  case (stopped e)
  then show ?thesis by simp
next
  case (reached pre a)
  then show ?thesis
    by (auto simp: no_duplicate_left)
qed

lemma build_image_publishing:
  "\<exists>file new. events (snd (build_image arch cloud_config github_client p proxies w)) = events w @ new
     \<and> publishing file (catalog w) (fst (build_image arch cloud_config github_client p proxies w)) new
          (catalog (snd (build_image arch cloud_config github_client p proxies w)))"
proof (cases "applications github_client p arch")
  case (Inl exc)
  have "\<not> list_ex is_create [Call (GetRunnerApplication p arch) (Raised exc)]"
    "\<not> list_ex is_refused [Call (GetRunnerApplication p arch) (Raised exc)]"
    by simp_all
  then have "publishing [] (catalog w) (fst (build_image arch cloud_config github_client p proxies w))
      [Call (GetRunnerApplication p arch) (Raised exc)]
      (catalog (snd (build_image arch cloud_config github_client p proxies w)))"
    unfolding build_image_client_failure [OF Inl] fst_conv
    by (auto intro!: publishingI_stopped)
  moreover have "events (snd (build_image arch cloud_config github_client p proxies w)) =
      events w @ [Call (GetRunnerApplication p arch) (Raised exc)]"
    by (simp add: build_image_client_failure [OF Inl])
  ultimately show ?thesis by blast
next
  case (Inr app)
  from build_image_shape [OF Inr, where cloud_config = cloud_config and proxies = proxies and w = w]
  show ?thesis
    by (metis prod.collapse)
qed

lemmas run_defs =
  build_image_def andthen_def reraise_from_def reraised_def get_runner_application_def
  build_image_command_run field_or_empty_def docker_proxy_def execute_command_def injected_def
  publish_image_def create_connection_def log_warning_def ret_def throw_def openstack_connect_def
  search_images_def delete_image_def create_image_def journal_def Let_def
  IMAGE_NAME_def IMAGE_PATH_TMPL_def
  quiet_world_def stale_world_def stubborn_world_def clouds_yaml_def github_def repo_def
  plain_command_def new_jammy_def hexdigit_def

lemma stale_run:
  "fst (build_image ''x64'' clouds_yaml github repo None stale_world) = Inr new_jammy"
  "events (snd (build_image ''x64'' clouds_yaml github repo None stale_world)) =
     [Call (GetRunnerApplication repo ''x64'') Returned,
      Call (LoadTemplate ''systemd-docker-proxy.j2'') Returned,
      Call (Render ''systemd-docker-proxy.j2'' (DockerProxyVars None)) Returned,
      Call (ExecuteCommand plain_command) Returned,
      LogWarning ''Multiple clouds defined in clouds.yaml. Using the first one to connect.'',
      Call (Connect ''prod'') Returned,
      Call (SearchImages ''jammy'') Returned,
      Call (DeleteImage ''a1'') Returned,
      Call (DeleteImage ''b2'') Returned,
      Call (CreateImage ''jammy'' ''jammy-server-cloudimg-amd64-compressed.img'') Returned]"
  by (simp_all add: run_defs)

lemma stubborn_run:
  "events (snd (build_image ''x64'' clouds_yaml github repo None stubborn_world)) =
     [Call (GetRunnerApplication repo ''x64'') Returned,
      Call (LoadTemplate ''systemd-docker-proxy.j2'') Returned,
      Call (Render ''systemd-docker-proxy.j2'' (DockerProxyVars None)) Returned,
      Call (ExecuteCommand plain_command) Returned,
      LogWarning ''Multiple clouds defined in clouds.yaml. Using the first one to connect.'',
      Call (Connect ''prod'') Returned,
      Call (SearchImages ''jammy'') Returned,
      Call (DeleteImage ''a1'') Returned,
      Call (DeleteImage ''b2'') ReturnedFalse]"
  by (simp add: run_defs)

text \<open>
  C7. When the client raises while resolving the runner application, \<open>build_image\<close> raises
  and that call is the only entry it adds to the journal: no build command is run and the
  cloud is not contacted. The error is
  \<^verbatim>\<open>ImageBuildError("Failed to fetch runner application.")\<close> with the client's exception
  as its cause when that exception is a \<^verbatim>\<open>RunnerBinaryError\<close>; an exception of any other
  class is not caught and comes out as it was raised.
\<close>

theorem fetch_failure:
  assumes "applications github_client p arch = Inl exc"
  shows "fst (build_image arch cloud_config github_client p proxies w) =
           Inl (if lib_class exc = RunnerBinaryError
                then ImageBuildError ''Failed to fetch runner application.'' (Some exc)
                else Lib exc)
       \<and> new_events w (snd (build_image arch cloud_config github_client p proxies w)) =
           [Call (GetRunnerApplication p arch) (Raised exc)]"
  by (simp add: build_image_client_failure [OF assms] new_events_def)

theorem fetch_failure_witness:
  "applications no_binary repo ''x64'' =
     Inl (LibExn RunnerBinaryError ''Unable to find runner application.'')
 \<and> fst (build_image ''x64'' clouds_yaml no_binary repo None quiet_world) =
     Inl (ImageBuildError ''Failed to fetch runner application.''
            (Some (LibExn RunnerBinaryError ''Unable to find runner application.'')))
 \<and> new_events quiet_world (snd (build_image ''x64'' clouds_yaml no_binary repo None quiet_world)) =
     [Call (GetRunnerApplication repo ''x64'')
        (Raised (LibExn RunnerBinaryError ''Unable to find runner application.''))]"
proof -
  have h: "applications no_binary repo ''x64'' =
     Inl (LibExn RunnerBinaryError ''Unable to find runner application.'')"
    by (simp add: no_binary_def)
  from fetch_failure [OF h, of clouds_yaml None quiet_world] h show ?thesis
    by simp
qed

text \<open>
  A client that fails with another exception than \<^verbatim>\<open>RunnerBinaryError\<close>: the exception is
  not replaced by an \<^verbatim>\<open>ImageBuildError\<close>.
\<close>

theorem fetch_failure_counterexample:
  "fst (build_image ''x64'' clouds_yaml gateway_down repo None quiet_world) =
     Inl (Lib (LibExn OtherException ''502 Bad Gateway''))
 \<and> fst (build_image ''x64'' clouds_yaml gateway_down repo None quiet_world) \<noteq>
     Inl (ImageBuildError ''Failed to fetch runner application.''
            (Some (LibExn OtherException ''502 Bad Gateway'')))"
proof -
  have "applications gateway_down repo ''x64'' = Inl (LibExn OtherException ''502 Bad Gateway'')"
    by (simp add: gateway_down_def)
  then show ?thesis
    by (simp add: build_image_client_failure)
qed



text \<open>
  C1. From every catalog: when \<open>build_image\<close> calls the creation of an image, the journal
  of the build ends with the deletions, by id and all reported done, of every image the
  catalog had under the name \<open>jammy\<close>, followed by that creation; when a deletion is
  reported as not done, \<open>build_image\<close> raises
  \<^verbatim>\<open>ImageBuildError("Failed to delete duplicate image on Openstack.")\<close> and creates no
  image; and after a build that returns an image, that image is the only one of the
  catalog under the name \<open>jammy\<close>.
\<close>

theorem build_image_replaces_duplicates:
  "(\<forall>nm file a.
      Call (CreateImage nm file) a
        \<in> set (new_events w (snd (build_image arch cloud_config github_client p proxies w)))
      \<longrightarrow> (\<exists>pre. new_events w (snd (build_image arch cloud_config github_client p proxies w)) =
                   pre @ deletions (matching ''jammy'' (catalog w)) @ [Call (CreateImage nm file) a])
        \<and> (\<forall>i \<in> set (catalog w). image_name i = ''jammy'' \<longrightarrow>
              Call (DeleteImage (image_id i)) Returned
                \<in> set (butlast (new_events w
                      (snd (build_image arch cloud_config github_client p proxies w))))))
 \<and> (\<forall>i. Call (DeleteImage i) ReturnedFalse
            \<in> set (new_events w (snd (build_image arch cloud_config github_client p proxies w)))
      \<longrightarrow> fst (build_image arch cloud_config github_client p proxies w) =
            Inl (ImageBuildError ''Failed to delete duplicate image on Openstack.'' None)
        \<and> (\<forall>nm file a. Call (CreateImage nm file) a
              \<notin> set (new_events w (snd (build_image arch cloud_config github_client p proxies w)))))
 \<and> (\<forall>img. fst (build_image arch cloud_config github_client p proxies w) = Inr img
      \<longrightarrow> filter (\<lambda>i. image_name i = ''jammy'')
            (catalog (snd (build_image arch cloud_config github_client p proxies w))) = [img])"
proof -
  obtain r w' where run: "build_image arch cloud_config github_client p proxies w = (r, w')"
    by (cases "build_image arch cloud_config github_client p proxies w")
  from build_image_publishing [of arch cloud_config github_client p proxies w] obtain fname new where
    new: "events w' = events w @ new" "publishing fname (catalog w) r new (catalog w')"
    unfolding run fst_conv snd_conv by blast
  from new(1) have ne: "new_events w w' = new"
    by (rule new_events_eq)
  have first: "(\<exists>pre. new = pre @ deletions (matching ''jammy'' (catalog w)) @ [Call (CreateImage nm f) a])
      \<and> (\<forall>i \<in> set (catalog w). image_name i = ''jammy'' \<longrightarrow>
              Call (DeleteImage (image_id i)) Returned \<in> set (butlast new))"
    if "Call (CreateImage nm f) a \<in> set new" for nm f a
  proof -
    from create_in_publishing [OF new(2) that] obtain pre where
      pre: "new = pre @ deletions (matching ''jammy'' (catalog w)) @ [Call (CreateImage nm f) a]"
      by (auto simp: IMAGE_NAME_def)
    then have "butlast new = pre @ deletions (matching ''jammy'' (catalog w))"
      by (simp add: butlast_append)
    then have "Call (DeleteImage (image_id i)) Returned \<in> set (butlast new)"
      if "i \<in> set (catalog w)" "image_name i = ''jammy''" for i
      using that by (auto simp: deletions_def matching_def)
    with pre show ?thesis by blast
  qed
  have second: "r = Inl (ImageBuildError ''Failed to delete duplicate image on Openstack.'' None)
      \<and> (\<forall>nm f a. Call (CreateImage nm f) a \<notin> set new)"
    if "Call (DeleteImage i) ReturnedFalse \<in> set new" for i
  proof -
    from refused_in_publishing [OF new(2) that]
    have r: "r = Inl (ImageBuildError ''Failed to delete duplicate image on Openstack.'' None)"
      and nc: "\<not> list_ex is_create new" by simp_all
    from nc have "Call (CreateImage nm f) a \<notin> set new" for nm f a
      by (auto simp: list_ex_iff)
    with r show ?thesis by blast
  qed
  have third: "filter (\<lambda>i. image_name i = ''jammy'') (catalog w') = [img]" if "r = Inr img" for img
    using published_in_publishing [of fname "catalog w" img new "catalog w'"] new(2) that
    by (simp add: IMAGE_NAME_def)
  from first second third show ?thesis
    unfolding run fst_conv snd_conv ne by blast
qed

theorem build_image_replaces_duplicates_witness:
  "Call (CreateImage ''jammy'' ''jammy-server-cloudimg-amd64-compressed.img'') Returned
     \<in> set (new_events stale_world (snd (build_image ''x64'' clouds_yaml github repo None stale_world)))
 \<and> Call (DeleteImage ''a1'') Returned
      \<in> set (butlast (new_events stale_world
            (snd (build_image ''x64'' clouds_yaml github repo None stale_world))))
 \<and> Call (DeleteImage ''b2'') Returned
      \<in> set (butlast (new_events stale_world
            (snd (build_image ''x64'' clouds_yaml github repo None stale_world))))
 \<and> fst (build_image ''x64'' clouds_yaml github repo None stale_world) = Inr new_jammy
 \<and> filter (\<lambda>i. image_name i = ''jammy'')
      (catalog (snd (build_image ''x64'' clouds_yaml github repo None stale_world))) = [new_jammy]
 \<and> Call (DeleteImage ''b2'') ReturnedFalse
     \<in> set (new_events stubborn_world (snd (build_image ''x64'' clouds_yaml github repo None stubborn_world)))
 \<and> fst (build_image ''x64'' clouds_yaml github repo None stubborn_world) =
      Inl (ImageBuildError ''Failed to delete duplicate image on Openstack.'' None)"
proof -
  have "events stale_world = []" "events stubborn_world = []"
    by (simp_all add: stale_world_def stubborn_world_def quiet_world_def)
  then have created: "Call (CreateImage ''jammy'' ''jammy-server-cloudimg-amd64-compressed.img'') Returned
     \<in> set (new_events stale_world (snd (build_image ''x64'' clouds_yaml github repo None stale_world)))"
    and refused: "Call (DeleteImage ''b2'') ReturnedFalse
     \<in> set (new_events stubborn_world (snd (build_image ''x64'' clouds_yaml github repo None stubborn_world)))"
    by (simp_all add: new_events_def stale_run(2) stubborn_run)
  note stale = build_image_replaces_duplicates [of stale_world "''x64''" clouds_yaml github repo None]
  note stubborn = build_image_replaces_duplicates [of stubborn_world "''x64''" clouds_yaml github repo None]
  from stale created have a: "Call (DeleteImage ''a1'') Returned
      \<in> set (butlast (new_events stale_world
            (snd (build_image ''x64'' clouds_yaml github repo None stale_world))))"
    "Call (DeleteImage ''b2'') Returned
      \<in> set (butlast (new_events stale_world
            (snd (build_image ''x64'' clouds_yaml github repo None stale_world))))"
    by (auto simp: stale_world_def)
  from stale stale_run(1) have b: "filter (\<lambda>i. image_name i = ''jammy'')
      (catalog (snd (build_image ''x64'' clouds_yaml github repo None stale_world))) = [new_jammy]"
    by blast
  from stubborn refused have c: "fst (build_image ''x64'' clouds_yaml github repo None stubborn_world) =
      Inl (ImageBuildError ''Failed to delete duplicate image on Openstack.'' None)"
    by blast
  from created a stale_run(1) b refused c show ?thesis
    by (intro conjI)
qed

end
